theory Spec2Isabelle
  imports Complex_Main "HOL-Library.Multiset" "HOL-Library.Char_ord" "HOL-Library.List_Lexorder"
begin

section \<open>Tables\<close>

text \<open>
  A pandas DataFrame is modelled row-major: the column labels in order (rename can
  make two of them equal, so this is a list and not a set) and the rows, each a list of
  cells aligned with the labels. A cell is a string, a finite number, an infinity
  (\<open>Inf True\<close> is the positive one), a timestamp (nanoseconds since the epoch,
  timezone-naive) or missing; \<open>NA\<close> stands for None, NaN and NaT alike, which is what
  \<open>isna\<close> and \<open>dropna\<close> test.
\<close>

type_synonym label = string

datatype cell = Str string | Num real | Inf bool | TS int | NA

record dataframe =
  columns :: "label list"
  rows :: "cell list list"

datatype error =
    FileNotFoundError
  | ValueError
  | TypeError
  | KeyError
  | AttributeError
  | NameError string
  | ExternalError string

definition wf_df :: "dataframe \<Rightarrow> bool" where
  "wf_df df = list_all (\<lambda>r. length r = length (columns df)) (rows df)"

text \<open>\<open>df.empty\<close>: some axis has length zero.\<close>

definition df_empty :: "dataframe \<Rightarrow> bool" where
  "df_empty df = (columns df = [] \<or> rows df = [])"

subsection \<open>Selecting and assigning a column\<close>

fun col_pos :: "label \<Rightarrow> label list \<Rightarrow> nat" where
  "col_pos c [] = 0"
| "col_pos c (x # xs) = (if x = c then 0 else Suc (col_pos c xs))"

definition column_at :: "nat \<Rightarrow> cell list list \<Rightarrow> cell list" where
  "column_at i rs = map (\<lambda>r. r ! i) rs"

text \<open>
  \<open>df[c]\<close> raises KeyError for an absent label, gives a Series for a label that
  occurs once and a DataFrame for a label that occurs several times.
\<close>

datatype selection = Series "cell list" | Frame

definition getitem :: "dataframe \<Rightarrow> label \<Rightarrow> error + selection" where
  "getitem df c =
     (if c \<notin> set (columns df) then Inl KeyError
      else if count_list (columns df) c = 1
        then Inr (Series (column_at (col_pos c (columns df)) (rows df)))
      else Inr Frame)"

text \<open>
  \<open>df[c] = s\<close> overwrites the column in place when the label exists and appends a new
  last column otherwise. (It is only reached below with a label that occurs at most
  once.)
\<close>

definition setitem :: "dataframe \<Rightarrow> label \<Rightarrow> cell list \<Rightarrow> dataframe" where
  "setitem df c s =
     (if c \<in> set (columns df)
      then df\<lparr>rows := map2 (\<lambda>r v. r[col_pos c (columns df) := v]) (rows df) s\<rparr>
      else df\<lparr>columns := columns df @ [c], rows := map2 (\<lambda>r v. r @ [v]) (rows df) s\<rparr>)"

section \<open>Normalization (utils/data_loader.py)\<close>

definition column_mapping :: "(label \<times> label) list" where
  "column_mapping =
    [(''Timestamp'', ''Timestamp''),
     (''timestamp'', ''Timestamp''),
     (''Date'', ''Timestamp''),
     (''Athlete'', ''Athlete''),
     (''Name'', ''Athlete''),
     (''SleepText'', ''SleepText''),
     (''Sleep Text'', ''SleepText''),
     (''Sleep Duration'', ''SleepText''),
     (''How did you sleep?'', ''Sleep''),
     (''Sleep Quality'', ''Sleep''),
     (''How is your mood?'', ''Mood''),
     (''Mood'', ''Mood''),
     (''What is your overall energy level?'', ''Energy''),
     (''Energy Level'', ''Energy''),
     (''Energy'', ''Energy''),
     (''What is your overall stress level?'', ''Stress''),
     (''Stress Level'', ''Stress''),
     (''Stress'', ''Stress''),
     (''What is your general soreness?'', ''Soreness''),
     (''Soreness'', ''Soreness''),
     (''What is your overall fatigue?'', ''Fatigue''),
     (''Fatigue'', ''Fatigue'')]"

definition numeric_columns :: "label list" where
  "numeric_columns = [''Sleep'', ''Mood'', ''Energy'', ''Stress'', ''Soreness'', ''Fatigue'']"

text \<open>\<open>df.rename(columns=column_mapping)\<close>: a label that is a key is replaced, any other
  label is kept; no column is removed and equal labels are not merged.\<close>

definition rename_label :: "label \<Rightarrow> label" where
  "rename_label c = (case map_of column_mapping c of Some c' \<Rightarrow> c' | None \<Rightarrow> c)"

definition rename :: "dataframe \<Rightarrow> dataframe" where
  "rename df = df\<lparr>columns := map rename_label (columns df)\<rparr>"

subsection \<open>Coercions\<close>

text \<open>A column of datetime type holds instants and missing cells only, a column of
  numeric type numbers, infinities and missing cells only.\<close>

definition is_instant :: "cell \<Rightarrow> bool" where
  "is_instant x = (case x of TS _ \<Rightarrow> True | NA \<Rightarrow> True | _ \<Rightarrow> False)"

definition is_number :: "cell \<Rightarrow> bool" where
  "is_number x = (case x of Num _ \<Rightarrow> True | Inf _ \<Rightarrow> True | NA \<Rightarrow> True | _ \<Rightarrow> False)"

text \<open>
  The parsers of pandas are parameters; both see the whole column, since what pandas
  does with a cell depends on the other cells (one format and one time zone for a column
  of instants, one float type for a column of numbers).

  \<open>pt col\<close> is how \<open>pd.to_datetime(col, errors='coerce')\<close> and the \<open>.dt.date\<close> that follows
  end on a column \<open>col\<close> that is not yet of datetime type. \<open>Inl e\<close>: pandas cannot bring the
  column to one datetime type and the block raises \<open>e\<close> in spite of \<open>errors='coerce'\<close>; texts
  with different UTC offsets do that (ValueError from \<open>to_datetime\<close> in pandas 3;
  earlier versions return a column of objects and \<open>.dt\<close> raises AttributeError).
  \<open>Inr p\<close>: the column is converted, \<open>p x\<close> is the instant read from the cell \<open>x\<close>, and
  \<open>None\<close> is a cell that does not parse and becomes missing.

  \<open>pn col x\<close> is the cell that \<open>pd.to_numeric(col, errors='coerce')\<close> makes of the cell \<open>x\<close>
  of a column \<open>col\<close> that is not yet of numeric type: a number (cast to float64, so it may
  be rounded), an infinity, or anything else for a cell that does not parse, which
  becomes missing.

  A column that already has the target type is returned as it is, and a missing cell
  stays missing.
\<close>

type_synonym datetime_parser = "cell list \<Rightarrow> error + (cell \<Rightarrow> int option)"
type_synonym numeric_parser = "cell list \<Rightarrow> cell \<Rightarrow> cell"

definition to_datetime_cell :: "(cell \<Rightarrow> int option) \<Rightarrow> cell \<Rightarrow> cell" where
  "to_datetime_cell p x =
     (case x of
        NA \<Rightarrow> NA
      | _ \<Rightarrow> (case p x of Some t \<Rightarrow> TS t | None \<Rightarrow> NA))"

definition to_numeric_cell :: "(cell \<Rightarrow> cell) \<Rightarrow> cell \<Rightarrow> cell" where
  "to_numeric_cell p x =
     (case x of
        NA \<Rightarrow> NA
      | _ \<Rightarrow> (if is_number (p x) then p x else NA))"

text \<open>What the conversion does to each cell of a column \<open>s\<close>, or the error it raises.\<close>

definition datetime_column :: "datetime_parser \<Rightarrow> cell list \<Rightarrow> error + (cell \<Rightarrow> cell)" where
  "datetime_column pt s =
     (if list_all is_instant s then Inr id
      else (case pt s of Inl e \<Rightarrow> Inl e | Inr p \<Rightarrow> Inr (to_datetime_cell p)))"

definition numeric_column :: "numeric_parser \<Rightarrow> cell list \<Rightarrow> cell \<Rightarrow> cell" where
  "numeric_column pn s = (if list_all is_number s then id else to_numeric_cell (pn s))"

text \<open>\<open>pd.to_datetime(sel, errors='coerce')\<close>: a DataFrame argument is assembled from
  year/month/day columns and is refused with ValueError when its labels repeat.\<close>

definition to_datetime_coerce :: "datetime_parser \<Rightarrow> selection \<Rightarrow> error + cell list" where
  "to_datetime_coerce pt sel =
     (case sel of
        Frame \<Rightarrow> Inl ValueError
      | Series s \<Rightarrow> (case datetime_column pt s of Inl e \<Rightarrow> Inl e | Inr f \<Rightarrow> Inr (map f s)))"

text \<open>\<open>pd.to_numeric(sel, errors='coerce')\<close>: a DataFrame argument is refused with
  TypeError.\<close>

definition to_numeric_coerce :: "numeric_parser \<Rightarrow> selection \<Rightarrow> error + cell list" where
  "to_numeric_coerce pn sel =
     (case sel of
        Frame \<Rightarrow> Inl TypeError
      | Series s \<Rightarrow> Inr (map (numeric_column pn s) s))"

definition ns_per_day :: int where
  "ns_per_day = 86400000000000"

text \<open>\<open>pd.to_datetime(s.dt.date)\<close>: the instant truncated to midnight of its calendar day;
  NaT stays NaT.\<close>

definition dt_date :: "cell \<Rightarrow> cell" where
  "dt_date x = (case x of TS t \<Rightarrow> TS (t - t mod ns_per_day) | _ \<Rightarrow> NA)"

subsection \<open>Sorting\<close>

text \<open>
  \<open>sort_values\<close> on several keys is a stable lexicographic sort with missing keys last
  (\<open>na_position='last'\<close>). Keys of one kind are compared by value (strings by code
  point, the infinities below and above every number); in a column of mixed kinds
  pandas puts numbers before strings.
\<close>

definition cell_rank :: "cell \<Rightarrow> nat" where
  "cell_rank x = (case x of Num _ \<Rightarrow> 0 | Inf _ \<Rightarrow> 0 | TS _ \<Rightarrow> 1 | Str _ \<Rightarrow> 2 | NA \<Rightarrow> 3)"

definition cell_le :: "cell \<Rightarrow> cell \<Rightarrow> bool" where
  "cell_le a b =
     (cell_rank a < cell_rank b \<or>
      (cell_rank a = cell_rank b \<and>
       (case (a, b) of
          (Num x, Num y) \<Rightarrow> x \<le> y
        | (Num x, Inf c) \<Rightarrow> c
        | (Inf b, Num y) \<Rightarrow> \<not> b
        | (Inf b, Inf c) \<Rightarrow> c \<or> \<not> b
        | (TS x, TS y) \<Rightarrow> x \<le> y
        | (Str x, Str y) \<Rightarrow> x \<le> y
        | _ \<Rightarrow> True)))"

definition row_le :: "nat \<Rightarrow> nat \<Rightarrow> cell list \<Rightarrow> cell list \<Rightarrow> bool" where
  "row_le i j r s =
     (if r ! i = s ! i then cell_le (r ! j) (s ! j) else cell_le (r ! i) (s ! i))"

fun insert_by :: "('a \<Rightarrow> 'a \<Rightarrow> bool) \<Rightarrow> 'a \<Rightarrow> 'a list \<Rightarrow> 'a list" where
  "insert_by le x [] = [x]"
| "insert_by le x (y # ys) = (if le x y then x # y # ys else y # insert_by le x ys)"

definition sort_by :: "('a \<Rightarrow> 'a \<Rightarrow> bool) \<Rightarrow> 'a list \<Rightarrow> 'a list" where
  "sort_by le xs = foldr (insert_by le) xs []"

text \<open>\<open>df.sort_values([k1, k2])\<close>: KeyError for an absent key, ValueError for a key label
  that is not unique.\<close>

definition sort_values :: "dataframe \<Rightarrow> label \<Rightarrow> label \<Rightarrow> error + dataframe" where
  "sort_values df k1 k2 =
     (if k1 \<notin> set (columns df) \<or> k2 \<notin> set (columns df) then Inl KeyError
      else if count_list (columns df) k1 \<noteq> 1 \<or> count_list (columns df) k2 \<noteq> 1
        then Inl ValueError
      else Inr (df\<lparr>rows :=
             sort_by (row_le (col_pos k1 (columns df)) (col_pos k2 (columns df))) (rows df)\<rparr>))"

subsection \<open>normalize_dataframe\<close>

text \<open>The block under \<open>if 'Timestamp' in df.columns\<close>.\<close>

definition convert_timestamp :: "datetime_parser \<Rightarrow> dataframe \<Rightarrow> error + dataframe" where
  "convert_timestamp pt df =
     (if ''Timestamp'' \<in> set (columns df) then
        (case getitem df ''Timestamp'' of
           Inl e \<Rightarrow> Inl e
         | Inr sel \<Rightarrow>
            (case to_datetime_coerce pt sel of
               Inl e \<Rightarrow> Inl e
             | Inr ts \<Rightarrow> Inr (setitem (setitem df ''Timestamp'' ts) ''Date'' (map dt_date ts))))
      else Inr df)"

text \<open>The loop \<open>for col in numeric_columns\<close>.\<close>

fun convert_numeric :: "numeric_parser \<Rightarrow> label list \<Rightarrow> dataframe \<Rightarrow> error + dataframe" where
  "convert_numeric pn [] df = Inr df"
| "convert_numeric pn (c # cs) df =
     (if c \<in> set (columns df) then
        (case getitem df c of
           Inl e \<Rightarrow> Inl e
         | Inr sel \<Rightarrow>
            (case to_numeric_coerce pn sel of
               Inl e \<Rightarrow> Inl e
             | Inr s \<Rightarrow> convert_numeric pn cs (setitem df c s)))
      else convert_numeric pn cs df)"

definition sort_date_athlete :: "dataframe \<Rightarrow> error + dataframe" where
  "sort_date_athlete df =
     (if ''Date'' \<in> set (columns df) \<and> ''Athlete'' \<in> set (columns df)
      then sort_values df ''Date'' ''Athlete''
      else Inr df)"

definition normalize_dataframe ::
    "datetime_parser \<Rightarrow> numeric_parser \<Rightarrow> dataframe \<Rightarrow> error + dataframe" where
  "normalize_dataframe pt pn df =
     (case convert_timestamp pt (rename df) of
        Inl e \<Rightarrow> Inl e
      | Inr df1 \<Rightarrow>
         (case convert_numeric pn numeric_columns df1 of
            Inl e \<Rightarrow> Inl e
          | Inr df2 \<Rightarrow> sort_date_athlete df2))"

text \<open>The keys of the mapping, and the labels a normalized table can carry: the values of
  the mapping and the \<open>Date\<close> column that normalization itself creates.\<close>

definition synonyms :: "label list" where
  "synonyms = map fst column_mapping"

definition canonical_fields :: "label list" where
  "canonical_fields = ''Date'' # map snd column_mapping"

subsection \<open>What normalization computes\<close>

text \<open>The effect of the timestamp block on one row, \<open>f\<close> being what the conversion does
  to a cell: the cell at position \<open>i\<close> is converted and its day is appended as the new last
  cell.\<close>

definition ts_row :: "(cell \<Rightarrow> cell) \<Rightarrow> nat \<Rightarrow> cell list \<Rightarrow> cell list" where
  "ts_row f i r = r[i := f (r ! i)] @ [dt_date (f (r ! i))]"

text \<open>The rows after the timestamp block, or the error of the conversion.\<close>

definition ts_stage :: "datetime_parser \<Rightarrow> dataframe \<Rightarrow> error + cell list list" where
  "ts_stage pt df =
     (let cs = map rename_label (columns df); i = col_pos ''Timestamp'' cs
      in if ''Timestamp'' \<in> set cs
         then (case datetime_column pt (column_at i (rows df)) of
                 Inl e \<Rightarrow> Inl e
               | Inr f \<Rightarrow> Inr (map (ts_row f i) (rows df)))
         else Inr (rows df))"

text \<open>The effect of the numeric loop on the rows: the column under each present numeric
  label is converted, in the order of the loop.\<close>

fun num_rows ::
    "numeric_parser \<Rightarrow> label list \<Rightarrow> label list \<Rightarrow> cell list list \<Rightarrow> cell list list" where
  "num_rows pn cols [] rs = rs"
| "num_rows pn cols (c # cs) rs =
     num_rows pn cols cs
       (if c \<in> set cols
        then map (\<lambda>r. r[col_pos c cols :=
                        numeric_column pn (column_at (col_pos c cols) rs) (r ! col_pos c cols)]) rs
        else rs)"

definition sort_stage :: "label list \<Rightarrow> cell list list \<Rightarrow> cell list list" where
  "sort_stage cs rs =
     (if ''Date'' \<in> set cs \<and> ''Athlete'' \<in> set cs
      then sort_by (row_le (col_pos ''Date'' cs) (col_pos ''Athlete'' cs)) rs
      else rs)"

text \<open>The labels of the result.\<close>

definition out_columns :: "label list \<Rightarrow> label list" where
  "out_columns cols =
     (if ''Timestamp'' \<in> set (map rename_label cols)
      then map rename_label cols @ [''Date''] else map rename_label cols)"

text \<open>
  The labels on which the function raises whatever the cells hold: after the renaming
  two columns are labelled \<open>Timestamp\<close>, or two carry the same numeric label, or two are
  labelled \<open>Athlete\<close> in a table that has a timestamp (and so is sorted).
\<close>

definition label_clash :: "label list \<Rightarrow> bool" where
  "label_clash cols =
     (1 < count_list (out_columns cols) ''Timestamp'' \<or>
      list_ex (\<lambda>c. 1 < count_list (out_columns cols) c) numeric_columns \<or>
      (''Date'' \<in> set (out_columns cols) \<and> 1 < count_list (out_columns cols) ''Athlete''))"

subsection \<open>Cell-wise coercion, stated on its own\<close>

text \<open>
  What the specification asks of each cell: under \<open>Timestamp\<close> the cell is read as an
  instant, under a numeric label as a number, anywhere else it is left alone; a cell that
  does not parse becomes missing. A row gains the day of its timestamp as a last cell when
  the table has a \<open>Timestamp\<close> column. The labels are those after renaming; \<open>f\<close> is what the
  datetime conversion does to a cell of the timestamp column and \<open>g c\<close> what the numeric
  conversion does to a cell of the column labelled \<open>c\<close>.
\<close>

definition coerce_cell :: "(cell \<Rightarrow> cell) \<Rightarrow> (label \<Rightarrow> cell \<Rightarrow> cell) \<Rightarrow> label \<Rightarrow> cell \<Rightarrow> cell" where
  "coerce_cell f g c x =
     (if c = ''Timestamp'' then f x
      else if c \<in> set numeric_columns then g c x
      else x)"

definition coerce_row ::
    "(cell \<Rightarrow> cell) \<Rightarrow> (label \<Rightarrow> cell \<Rightarrow> cell) \<Rightarrow> label list \<Rightarrow> cell list \<Rightarrow> cell list" where
  "coerce_row f g cols r =
     map2 (coerce_cell f g) cols r @
       (if ''Timestamp'' \<in> set cols then [dt_date (f (r ! col_pos ''Timestamp'' cols))] else [])"

definition coerced_rows :: "datetime_parser \<Rightarrow> numeric_parser \<Rightarrow> dataframe \<Rightarrow> cell list list" where
  "coerced_rows pt pn df =
     (let cols = map rename_label (columns df);
          f = (case datetime_column pt (column_at (col_pos ''Timestamp'' cols) (rows df)) of
                 Inl e \<Rightarrow> id | Inr f \<Rightarrow> f);
          g = (\<lambda>c. numeric_column pn (column_at (col_pos c cols) (rows df)))
      in map (coerce_row f g cols) (rows df))"

subsection \<open>Canonical form\<close>

text \<open>
  A table is in canonical form when its labels are distinct canonical fields, its rows fit
  its labels, every cell under \<open>Timestamp\<close> or \<open>Date\<close> is an instant or missing and every
  cell under a numeric label is a number (finite or infinite) or missing.
\<close>

definition column_all :: "(cell \<Rightarrow> bool) \<Rightarrow> dataframe \<Rightarrow> label \<Rightarrow> bool" where
  "column_all P df c =
     (c \<notin> set (columns df) \<or> list_all (\<lambda>r. P (r ! col_pos c (columns df))) (rows df))"

definition canonical_form :: "dataframe \<Rightarrow> bool" where
  "canonical_form df =
     (wf_df df \<and> distinct (columns df) \<and> set (columns df) \<subseteq> set canonical_fields \<and>
      list_all (column_all is_instant df) [''Timestamp'', ''Date''] \<and>
      list_all (column_all is_number df) numeric_columns)"

section \<open>Ingestion (load_google_sheet)\<close>

text \<open>
  What the function finds outside itself: whether the credentials file exists, what the
  chain of remote calls (authorize, open the sheet, open the worksheet,
  \<open>get_all_records\<close>, \<open>pd.DataFrame\<close>) yields, and what
  \<open>pd.read_csv("data/example_export.csv")\<close> yields. Each call either raises or gives a
  table. Every error of the model is an \<open>Exception\<close>, so \<open>except Exception\<close> catches it.
\<close>

record source_env =
  credentials_exist :: bool
  remote_records :: "error + dataframe"
  fallback_csv :: "error + dataframe"

datatype attempt = Remote | Fallback

text \<open>The \<open>try\<close> block, with the ingestion attempts it makes: a missing credentials file
  raises before any remote call, an empty table raises \<open>ValueError("No data found in sheet")\<close>.\<close>

definition try_remote :: "source_env \<Rightarrow> attempt list \<times> (error + dataframe)" where
  "try_remote env =
     (if \<not> credentials_exist env then ([], Inl FileNotFoundError)
      else ([Remote],
            (case remote_records env of
               Inl e \<Rightarrow> Inl e
             | Inr df \<Rightarrow> if df_empty df then Inl ValueError else Inr df)))"

definition load_google_sheet ::
    "datetime_parser \<Rightarrow> numeric_parser \<Rightarrow> source_env \<Rightarrow> bool \<Rightarrow>
     attempt list \<times> (error + dataframe)" where
  "load_google_sheet pt pn env use_fallback =
     (case try_remote env of
        (tr, Inr df) \<Rightarrow> (tr, normalize_dataframe pt pn df)
      | (tr, Inl e) \<Rightarrow>
          (if use_fallback then
             (case fallback_csv env of
                Inl e' \<Rightarrow> (tr @ [Fallback], Inl e')
              | Inr df \<Rightarrow> (tr @ [Fallback], normalize_dataframe pt pn df))
           else (tr, Inl e)))"

section \<open>Importing the module (top of utils/data_loader.py)\<close>

text \<open>
  The statements that run when the module is imported, in order: the library imports,
  the test \<open>"GSPREAD_CREDENTIALS" in st.secrets\<close>, then either
  \<open>json.loads(st.secrets[...])\<close> followed by \<open>Credentials.from_service_account_info\<close>, or
  \<open>Credentials.from_service_account_file\<close>, then the authorisation and the fetch of the
  sheet. The environment says how each external step ends. A name is looked up among the
  names bound so far in the module (no builtin is called \<open>Credentials\<close>).
\<close>

record import_env =
  library_imports :: "error + unit"
  secrets_lookup :: "error + bool"
  secrets_json :: "error + unit"
  import_fetch :: "error + unit"

definition module_names :: "string list" where
  "module_names =
     [''json'', ''pd'', ''gspread'', ''ServiceAccountCredentials'', ''st'', ''Optional'',
      ''Dict'', ''Any'', ''os'', ''datetime'', ''timedelta'', ''scope'']"

definition lookup_name :: "string list \<Rightarrow> string \<Rightarrow> error + unit" where
  "lookup_name names n = (if n \<in> set names then Inr () else Inl (NameError n))"

definition import_data_loader :: "import_env \<Rightarrow> error + unit" where
  "import_data_loader env =
     (case library_imports env of
        Inl e \<Rightarrow> Inl e
      | Inr _ \<Rightarrow>
         (case secrets_lookup env of
            Inl e \<Rightarrow> Inl e
          | Inr True \<Rightarrow>
             (case secrets_json env of
                Inl e \<Rightarrow> Inl e
              | Inr _ \<Rightarrow>
                 (case lookup_name (''creds_dict'' # module_names) ''Credentials'' of
                    Inl e \<Rightarrow> Inl e
                  | Inr _ \<Rightarrow> import_fetch env))
          | Inr False \<Rightarrow>
             (case lookup_name module_names ''Credentials'' of
                Inl e \<Rightarrow> Inl e
              | Inr _ \<Rightarrow> import_fetch env)))"

text \<open>app.py imports the module at its top, before \<open>USE_FALLBACK\<close> is even defined;
  \<open>load_google_sheet\<close> exists only once the import has succeeded.\<close>

definition app_load ::
    "import_env \<Rightarrow> datetime_parser \<Rightarrow> numeric_parser \<Rightarrow> source_env \<Rightarrow> bool \<Rightarrow>
     error + dataframe" where
  "app_load ienv pt pn env use_fallback =
     (case import_data_loader ienv of
        Inl e \<Rightarrow> Inl e
      | Inr _ \<Rightarrow> snd (load_google_sheet pt pn env use_fallback))"

section \<open>get_athletes\<close>

definition dropna :: "cell list \<Rightarrow> cell list" where
  "dropna s = filter (\<lambda>x. x \<noteq> NA) s"

text \<open>\<open>Series.unique()\<close>: the distinct values in order of first appearance.\<close>

definition unique :: "cell list \<Rightarrow> cell list" where
  "unique s = rev (remdups (rev s))"

text \<open>
  Python's \<open>sorted\<close>: ascending by \<open><\<close>, stable. Comparing a string with a number (or
  either with a timestamp) raises TypeError, so a list that mixes kinds is refused.
\<close>

definition same_kind :: "cell list \<Rightarrow> bool" where
  "same_kind xs = list_all (\<lambda>x. list_all (\<lambda>y. cell_rank x = cell_rank y) xs) xs"

definition sorted_py :: "cell list \<Rightarrow> error + cell list" where
  "sorted_py xs = (if same_kind xs then Inr (sort_by cell_le xs) else Inl TypeError)"

text \<open>A DataFrame (two columns labelled \<open>Athlete\<close>) has \<open>dropna\<close> but no \<open>unique\<close>:
  AttributeError.\<close>

definition get_athletes :: "dataframe \<Rightarrow> error + cell list" where
  "get_athletes df =
     (if ''Athlete'' \<in> set (columns df) then
        (case getitem df ''Athlete'' of
           Inl e \<Rightarrow> Inl e
         | Inr Frame \<Rightarrow> Inl AttributeError
         | Inr (Series s) \<Rightarrow> sorted_py (unique (dropna s)))
      else Inr [])"

text \<open>The non-missing values of the \<open>Athlete\<close> column, none when there is no such column.\<close>

definition athlete_values :: "dataframe \<Rightarrow> cell list" where
  "athlete_values df =
     (if ''Athlete'' \<in> set (columns df)
      then dropna (column_at (col_pos ''Athlete'' (columns df)) (rows df)) else [])"

section \<open>Derived metrics\<close>

text \<open>The metric fields of one row; \<open>None\<close> is an unknown value.\<close>

record metrics =
  sleep :: "real option"
  mood :: "real option"
  energy :: "real option"
  stress :: "real option"
  soreness :: "real option"
  fatigue :: "real option"

fun known :: "'a option list \<Rightarrow> 'a list" where
  "known [] = []"
| "known (None # xs) = known xs"
| "known (Some x # xs) = x # known xs"

text \<open>The known metric values of a row lie on the scale from \<open>lo\<close> to \<open>hi\<close>.\<close>

definition in_scale :: "real \<Rightarrow> real \<Rightarrow> metrics \<Rightarrow> bool" where
  "in_scale lo hi m =
     list_all (\<lambda>x. lo \<le> x \<and> x \<le> hi)
       (known [sleep m, mood m, energy m, stress m, soreness m, fatigue m])"

text \<open>
  Modelled from the spec: \<open>add_readiness_column\<close> (components/readiness.py) is called by
  app.py but is not among the sources. Section 4.2: readiness is a fixed-weight
  combination (the unweighted average is the case of equal weights) of the available
  metric fields, where stress, soreness and fatigue are inverted first and sleep, mood
  and energy contribute directly; it is unknown when no metric is known and is computed
  from the known subset otherwise. The weights \<open>ws\<close> (one per field, in the order below) and
  the inversion \<open>invert\<close> are left as parameters, since the specification does not fix them.
\<close>

definition contributions :: "(real \<Rightarrow> real) \<Rightarrow> metrics \<Rightarrow> real option list" where
  "contributions invert m =
     [sleep m, mood m, energy m,
      map_option invert (stress m), map_option invert (soreness m), map_option invert (fatigue m)]"

definition weighted_mean :: "(real \<times> real) list \<Rightarrow> real" where
  "weighted_mean wvs = sum_list (map (\<lambda>(w, v). w * v) wvs) / sum_list (map fst wvs)"

definition readiness :: "real list \<Rightarrow> (real \<Rightarrow> real) \<Rightarrow> metrics \<Rightarrow> real option" where
  "readiness ws invert m =
     (let wvs = known (map2 (\<lambda>w c. map_option (Pair w) c) ws (contributions invert m))
      in if wvs = [] then None else Some (weighted_mean wvs))"

text \<open>
  Modelled from the spec: \<open>add_all_zscores\<close> (components/zscores.py) is called by app.py
  but is not among the sources. Section 4.4: the z-score of a value is
  \<open>(value - subject_mean) / subject_stddev\<close> over the subject's own historical series of
  the metric; fewer than two historical points, or a standard deviation of zero, give
  unknown. The series lists the subject's observations, unknown ones included; \<open>ddof\<close> is the
  divisor correction of the standard deviation (0 or 1), which the specification does not
  fix. A division is written with its zero case, which in floating point is an infinity
  or a NaN.
\<close>

datatype score = Unknown | Score real | NonFinite

definition float_div :: "real \<Rightarrow> real \<Rightarrow> score" where
  "float_div a b = (if b = 0 then NonFinite else Score (a / b))"

definition mean :: "real list \<Rightarrow> real" where
  "mean xs = sum_list xs / real (length xs)"

definition variance :: "nat \<Rightarrow> real list \<Rightarrow> real" where
  "variance ddof xs =
     sum_list (map (\<lambda>x. (x - mean xs)\<^sup>2) xs) / (real (length xs) - real ddof)"

definition zscore :: "nat \<Rightarrow> real option list \<Rightarrow> real \<Rightarrow> score" where
  "zscore ddof series v =
     (let h = known series
      in if length h < 2 then Unknown
         else (let sd = sqrt (variance ddof h)
               in if sd = 0 then Unknown else float_div (v - mean h) sd))"

section \<open>Sample parsers and tables\<close>

text \<open>
  Two concrete parsers for the examples.

  Instants: a number is that many nanoseconds since the epoch; the two texts of
  \<open>sample_texts\<close> are read as their wall-clock time (second component) and carry a UTC
  offset in minutes (third component); no other cell is an instant. A column whose texts
  carry more than one UTC offset is refused, as pandas does.

  Numbers: a string of decimal digits is the number it writes, the text \<open>1e400\<close>
  overflows float64 to the positive infinity, and no other string is a number. A number
  is cast to float64; \<open>sample_float64\<close> writes the rounding out for the one number of the
  examples that float64 cannot hold, 2^53 + 1.
\<close>

definition sample_texts :: "(string \<times> int \<times> int) list" where
  "sample_texts =
     [(''2024-01-01T08:00:00+01:00'', (1704096000000000000, 60)),
      (''2024-01-02T08:00:00+02:00'', (1704182400000000000, 120))]"

definition sample_instant :: "cell \<Rightarrow> int option" where
  "sample_instant x =
     (case x of
        Num v \<Rightarrow> Some \<lfloor>v\<rfloor>
      | Str s \<Rightarrow> map_option fst (map_of sample_texts s)
      | _ \<Rightarrow> None)"

definition sample_offsets :: "cell list \<Rightarrow> int list" where
  "sample_offsets col =
     remdups (concat (map (\<lambda>x. case x of
                                 Str s \<Rightarrow> (case map_of sample_texts s of
                                             Some v \<Rightarrow> [snd v] | None \<Rightarrow> [])
                               | _ \<Rightarrow> []) col))"

definition sample_datetime :: datetime_parser where
  "sample_datetime col =
     (if 1 < length (sample_offsets col) then Inl ValueError else Inr sample_instant)"

fun digits_value :: "nat \<Rightarrow> string \<Rightarrow> nat option" where
  "digits_value acc [] = Some acc"
| "digits_value acc (c # cs) =
     (if CHR ''0'' \<le> c \<and> c \<le> CHR ''9''
      then digits_value (10 * acc + (of_char c - 48)) cs else None)"

definition sample_float64 :: "real \<Rightarrow> real" where
  "sample_float64 v = (if v = 9007199254740993 then 9007199254740992 else v)"

definition sample_numeric :: numeric_parser where
  "sample_numeric col x =
     (case x of
        Str s \<Rightarrow>
          (if s = ''1e400'' then Inf True
           else if s = [] then NA
           else (case digits_value 0 s of
                   Some n \<Rightarrow> Num (sample_float64 (real n))
                 | None \<Rightarrow> Str s))
      | Num v \<Rightarrow> Num (sample_float64 v)
      | _ \<Rightarrow> x)"

definition sample_raw :: dataframe where
  "sample_raw =
     \<lparr>columns = [''Name'', ''Date'', ''Sleep Quality''],
      rows = [[Str ''B'', Num 5, Str ''7''],
              [Str ''A'', Num 5, Str ''bad''],
              [Str ''C'', Str ''zz'', Num 3]]\<rparr>"

definition sample_normalized :: dataframe where
  "sample_normalized =
     \<lparr>columns = [''Athlete'', ''Timestamp'', ''Sleep'', ''Date''],
      rows = [[Str ''A'', TS 5, NA, TS 0],
              [Str ''B'', TS 5, Num 7, TS 0],
              [Str ''C'', NA, Num 3, NA]]\<rparr>"

definition sample_metrics :: dataframe where
  "sample_metrics =
     \<lparr>columns = [''Athlete'', ''Sleep'', ''Mood''],
      rows = [[Str ''B'', Num 7, NA], [Str ''A'', Num 5, Num 6]]\<rparr>"


definition sample_athletes :: dataframe where
  "sample_athletes =
     \<lparr>columns = [''Athlete'', ''Mood''],
      rows = [[Str ''Bo'', Num 5], [NA, Num 3], [Str ''Al'', NA], [Str ''Bo'', Num 7]]\<rparr>"

definition sample_mixed :: dataframe where
  "sample_mixed = \<lparr>columns = [''Athlete''], rows = [[Str ''Bo''], [Num 7]]\<rparr>"

text \<open>Two well-formed timestamps with different UTC offsets; a header with both
  \<open>Timestamp\<close> and \<open>Date\<close> and no row; a numeric column with one text that is no number
  beside a number that float64 rounds and a text that overflows.\<close>

definition sample_mixed_offsets :: dataframe where
  "sample_mixed_offsets =
     \<lparr>columns = [''Name'', ''Timestamp''],
      rows = [[Str ''A'', Str ''2024-01-01T08:00:00+01:00''],
              [Str ''B'', Str ''2024-01-02T08:00:00+02:00'']]\<rparr>"

definition sample_header_only :: dataframe where
  "sample_header_only = \<lparr>columns = [''Timestamp'', ''Date''], rows = []\<rparr>"

definition sample_cast :: dataframe where
  "sample_cast =
     \<lparr>columns = [''Name'', ''Mood''],
      rows = [[Str ''A'', Num 9007199254740993],
              [Str ''B'', Str ''n/a''],
              [Str ''C'', Str ''1e400'']]\<rparr>"

text \<open>A sample policy: equal weights, and the inversion of the scale from 1 to 10.\<close>

definition equal_weights :: "real list" where
  "equal_weights = [1, 1, 1, 1, 1, 1]"

definition invert_1_10 :: "real \<Rightarrow> real" where
  "invert_1_10 x = 11 - x"

definition sample_metrics_row :: metrics where
  "sample_metrics_row =
     \<lparr>sleep = Some 8, mood = None, energy = Some 6,
      stress = Some 3, soreness = None, fatigue = None\<rparr>"

section \<open>Properties of normalization\<close>

subsection \<open>Lists and columns\<close>

lemma count_list_distinct: "distinct xs \<Longrightarrow> x \<in> set xs \<Longrightarrow> count_list xs x = 1"
  by (induction xs) auto

lemma map2_maps: "map2 F (map a xs) (map b xs) = map (\<lambda>x. F (a x) (b x)) xs"
  by (induction xs) auto

lemma map2_map_right: "map2 F xs (map b xs) = map (\<lambda>x. F x (b x)) xs"
  by (induction xs) auto

lemma col_pos_less: "c \<in> set cols \<Longrightarrow> col_pos c cols < length cols"
  by (induction cols) auto

lemma col_pos_nth: "c \<in> set cols \<Longrightarrow> cols ! col_pos c cols = c"
  by (induction cols) auto

lemma col_pos_append: "c \<in> set cols \<Longrightarrow> col_pos c (cols @ ds) = col_pos c cols"
  by (induction cols) auto

lemma count_list_gt1_mem: "1 < count_list xs x \<Longrightarrow> x \<in> set xs"
  by (rule ccontr) simp

lemma count_list_pos: "x \<in> set xs \<Longrightarrow> 0 < count_list xs x"
  by (induction xs) auto

lemma count_list_once:
  "x \<in> set xs \<Longrightarrow> \<not> 1 < count_list xs x \<Longrightarrow> count_list xs x = 1"
  using count_list_pos[of x xs] by simp

lemma col_pos_once:
  "count_list cols c = 1 \<Longrightarrow> j < length cols \<Longrightarrow> cols ! j = c \<Longrightarrow> j = col_pos c cols"
proof (induction cols arbitrary: j)
  case Nil
  then show ?case by simp
next
  case (Cons x xs)
  show ?case
  proof (cases "x = c")
    case True
    then have "count_list xs c = 0" using Cons.prems(1) by simp
    then have "c \<notin> set xs" by (simp add: count_list_0_iff)
    then have "j = 0" using Cons.prems(2,3) by (cases j) auto
    then show ?thesis using True by simp
  next
    case False
    then obtain k where k: "j = Suc k" using Cons.prems(3) by (cases j) auto
    then have "k = col_pos c xs"
      using Cons.prems False by (intro Cons.IH) auto
    then show ?thesis using False k by simp
  qed
qed

lemma getitem_series:
  "count_list (columns df) c = 1 \<Longrightarrow>
   getitem df c = Inr (Series (column_at (col_pos c (columns df)) (rows df)))"
  using count_list_0_iff[of "columns df" c] by (auto simp add: getitem_def)

lemma getitem_frame:
  "1 < count_list (columns df) c \<Longrightarrow> getitem df c = Inr Frame"
  using count_list_gt1_mem[of "columns df" c] by (simp add: getitem_def)

lemma setitem_present:
  "c \<in> set (columns df) \<Longrightarrow>
   setitem df c (map f (column_at (col_pos c (columns df)) (rows df))) =
     df\<lparr>rows := map (\<lambda>r. r[col_pos c (columns df) := f (r ! col_pos c (columns df))]) (rows df)\<rparr>"
  by (simp add: setitem_def column_at_def map2_map_right[where b="\<lambda>r. f (r ! col_pos c (columns df))", simplified] o_def)

lemma rename_label_not_Date: "rename_label c \<noteq> ''Date''"
  by (auto simp: rename_label_def column_mapping_def split: option.splits if_splits)

lemma Date_not_renamed: "''Date'' \<notin> set (map rename_label cols)"
proof
  assume "''Date'' \<in> set (map rename_label cols)"
  then obtain c where "rename_label c = ''Date''" by auto
  then show False using rename_label_not_Date by blast
qed

lemma Date_in_out_columns:
  "''Date'' \<in> set (out_columns cols) \<longleftrightarrow> ''Timestamp'' \<in> set (map rename_label cols)"
  using Date_not_renamed[of cols] by (simp add: out_columns_def)

lemma count_list_Date_not_renamed: "count_list (map rename_label cols) ''Date'' = 0"
  by (metis count_list_0_iff Date_not_renamed)

lemma count_list_out_columns:
  "c \<noteq> ''Date'' \<Longrightarrow> count_list (out_columns cols) c = count_list (map rename_label cols) c"
  by (simp add: out_columns_def)

lemma count_list_out_columns_Date:
  "''Date'' \<in> set (out_columns cols) \<Longrightarrow> count_list (out_columns cols) ''Date'' = 1"
  using count_list_Date_not_renamed[of cols] Date_not_renamed[of cols]
  by (simp add: out_columns_def split: if_splits)

lemma mem_out_columns:
  "c \<noteq> ''Date'' \<Longrightarrow> c \<in> set (out_columns cols) \<longleftrightarrow> c \<in> set (map rename_label cols)"
  by (simp add: out_columns_def)

subsection \<open>The three stages\<close>

lemma convert_timestamp_absent:
  "''Timestamp'' \<notin> set (columns df) \<Longrightarrow> convert_timestamp pt df = Inr df"
  by (simp add: convert_timestamp_def)

lemma convert_timestamp_frame:
  "1 < count_list (columns df) ''Timestamp'' \<Longrightarrow> convert_timestamp pt df = Inl ValueError"
  using count_list_gt1_mem[of "columns df" "''Timestamp''"]
  by (simp add: convert_timestamp_def getitem_frame to_datetime_coerce_def)

lemma convert_timestamp_present:
  assumes "count_list (columns df) ''Timestamp'' = 1" "''Date'' \<notin> set (columns df)"
  shows "convert_timestamp pt df =
     (case datetime_column pt (column_at (col_pos ''Timestamp'' (columns df)) (rows df)) of
        Inl e \<Rightarrow> Inl e
      | Inr f \<Rightarrow> Inr (df\<lparr>columns := columns df @ [''Date''],
                         rows := map (ts_row f (col_pos ''Timestamp'' (columns df))) (rows df)\<rparr>))"
proof -
  let ?i = "col_pos ''Timestamp'' (columns df)"
  have m: "''Timestamp'' \<in> set (columns df)"
    using assms(1) count_list_0_iff[of "columns df" "''Timestamp''"] by auto
  have s: "setitem (setitem df ''Timestamp'' (map f (column_at ?i (rows df)))) ''Date''
             (map (dt_date \<circ> f) (column_at ?i (rows df))) =
           df\<lparr>columns := columns df @ [''Date''], rows := map (ts_row f ?i) (rows df)\<rparr>" for f
  proof -
    let ?df1 = "df\<lparr>rows := map (\<lambda>r. r[?i := f (r ! ?i)]) (rows df)\<rparr>"
    have s1: "setitem df ''Timestamp'' (map f (column_at ?i (rows df))) = ?df1"
      using m by (rule setitem_present)
    have s2: "setitem ?df1 ''Date'' (map (dt_date \<circ> f) (column_at ?i (rows df))) =
        df\<lparr>columns := columns df @ [''Date''], rows := map (ts_row f ?i) (rows df)\<rparr>"
      using assms(2) by (simp add: setitem_def column_at_def map2_maps o_def ts_row_def)
    show ?thesis by (simp only: s1 s2)
  qed
  show ?thesis
    using m assms(1)
    by (simp add: convert_timestamp_def getitem_series to_datetime_coerce_def s
        split: sum.splits)
qed

lemma convert_numeric_result:
  "convert_numeric pn cs df =
     (if list_ex (\<lambda>c. 1 < count_list (columns df) c) cs then Inl TypeError
      else Inr (df\<lparr>rows := num_rows pn (columns df) cs (rows df)\<rparr>))"
proof (induction cs arbitrary: df)
  case Nil
  then show ?case by simp
next
  case (Cons c cs)
  show ?case
  proof (cases "c \<in> set (columns df)")
    case False
    then have "\<not> 1 < count_list (columns df) c"
      using count_list_gt1_mem by fastforce
    then show ?thesis using False Cons.IH[of df] by simp
  next
    case True
    show ?thesis
    proof (cases "1 < count_list (columns df) c")
      case many: True
      then show ?thesis
        using True by (simp add: getitem_frame to_numeric_coerce_def)
    next
      case False
      then have one: "count_list (columns df) c = 1"
        using True by (simp add: count_list_once)
      let ?i = "col_pos c (columns df)"
      let ?g = "numeric_column pn (column_at ?i (rows df))"
      let ?df1 = "df\<lparr>rows := map (\<lambda>r. r[?i := ?g (r ! ?i)]) (rows df)\<rparr>"
      have "convert_numeric pn (c # cs) df = convert_numeric pn cs ?df1"
        using True one by (simp add: getitem_series to_numeric_coerce_def setitem_present)
      also have "\<dots> = (if list_ex (\<lambda>c. 1 < count_list (columns ?df1) c) cs then Inl TypeError
          else Inr (?df1\<lparr>rows := num_rows pn (columns ?df1) cs (rows ?df1)\<rparr>))"
        by (rule Cons.IH)
      finally show ?thesis using True False by simp
    qed
  qed
qed

lemma sort_date_athlete_result:
  "sort_date_athlete df =
     (if ''Date'' \<in> set (columns df) \<and> ''Athlete'' \<in> set (columns df) \<and>
         (count_list (columns df) ''Date'' \<noteq> 1 \<or> count_list (columns df) ''Athlete'' \<noteq> 1)
      then Inl ValueError
      else Inr (df\<lparr>rows := sort_stage (columns df) (rows df)\<rparr>))"
  by (simp add: sort_date_athlete_def sort_values_def sort_stage_def)

text \<open>The outcome of \<open>normalize_dataframe\<close> on every table, errors included, in the order
  in which the code reaches them.\<close>

lemma normalize_dataframe_result:
  "normalize_dataframe pt pn df =
     (if 1 < count_list (out_columns (columns df)) ''Timestamp'' then Inl ValueError
      else (case ts_stage pt df of
              Inl e \<Rightarrow> Inl e
            | Inr rs1 \<Rightarrow>
               (if list_ex (\<lambda>c. 1 < count_list (out_columns (columns df)) c) numeric_columns
                then Inl TypeError
                else if ''Date'' \<in> set (out_columns (columns df)) \<and>
                        1 < count_list (out_columns (columns df)) ''Athlete''
                then Inl ValueError
                else Inr (df\<lparr>columns := out_columns (columns df),
                             rows := sort_stage (out_columns (columns df))
                                       (num_rows pn (out_columns (columns df)) numeric_columns rs1)\<rparr>))))"
proof -
  let ?cs = "map rename_label (columns df)"
  let ?oc = "out_columns (columns df)"
  have ct: "count_list ?oc ''Timestamp'' = count_list ?cs ''Timestamp''"
    by (simp add: count_list_out_columns)
  have nd: "''Date'' \<notin> set ?cs"
    by (rule Date_not_renamed)
  have c1: "convert_timestamp pt (rename df) =
      (if 1 < count_list ?cs ''Timestamp'' then Inl ValueError
       else (case ts_stage pt df of
               Inl e \<Rightarrow> Inl e
             | Inr rs1 \<Rightarrow> Inr (df\<lparr>columns := ?oc, rows := rs1\<rparr>)))"
  proof (cases "''Timestamp'' \<in> set ?cs")
    case False
    then have "\<not> 1 < count_list ?cs ''Timestamp''"
      using count_list_gt1_mem by fastforce
    then show ?thesis
      using False
      by (simp add: convert_timestamp_absent rename_def out_columns_def ts_stage_def)
  next
    case True
    show ?thesis
    proof (cases "1 < count_list ?cs ''Timestamp''")
      case many: True
      then show ?thesis by (simp add: convert_timestamp_frame rename_def)
    next
      case False
      then have one: "count_list (columns (rename df)) ''Timestamp'' = 1"
        using True by (simp add: count_list_once rename_def)
      have nd': "''Date'' \<notin> set (columns (rename df))"
        using nd by (simp add: rename_def)
      show ?thesis
        unfolding convert_timestamp_present[OF one nd']
        using True False
        by (simp add: rename_def out_columns_def ts_stage_def Let_def split: sum.splits)
    qed
  qed
  have c3: "sort_date_athlete (df\<lparr>columns := ?oc, rows := rs\<rparr>) =
      (if ''Date'' \<in> set ?oc \<and> 1 < count_list ?oc ''Athlete'' then Inl ValueError
       else Inr (df\<lparr>columns := ?oc, rows := sort_stage ?oc rs\<rparr>))" for rs
  proof -
    have a: "''Athlete'' \<in> set ?oc \<and> count_list ?oc ''Athlete'' \<noteq> 1 \<longleftrightarrow> 1 < count_list ?oc ''Athlete''"
      using count_list_pos[of "''Athlete''" ?oc] count_list_gt1_mem[of ?oc "''Athlete''"] by auto
    show ?thesis
      unfolding sort_date_athlete_result
      using a count_list_out_columns_Date[of "columns df"] by auto
  qed
  show ?thesis
    unfolding normalize_dataframe_def c1 ct
    by (simp add: convert_numeric_result c3 split: sum.splits)
qed

lemma col_pos_unique: "distinct cols \<Longrightarrow> j < length cols \<Longrightarrow> col_pos (cols ! j) cols = j"
  by (induction cols arbitrary: j) (auto simp: nth_Cons' )

lemma normalize_dataframe_returns:
  assumes "normalize_dataframe pt pn df = Inr df'"
  shows "\<not> label_clash (columns df) \<and>
         (\<exists>rs1. ts_stage pt df = Inr rs1 \<and>
            df' = df\<lparr>columns := out_columns (columns df),
                     rows := sort_stage (out_columns (columns df))
                               (num_rows pn (out_columns (columns df)) numeric_columns rs1)\<rparr>)"
  using assms unfolding normalize_dataframe_result label_clash_def
  by (auto split: if_splits sum.splits)

lemma normalize_dataframe_no_clash:
  assumes "\<not> label_clash (columns df)" "ts_stage pt df = Inr rs1"
  shows "normalize_dataframe pt pn df =
           Inr (df\<lparr>columns := out_columns (columns df),
                   rows := sort_stage (out_columns (columns df))
                             (num_rows pn (out_columns (columns df)) numeric_columns rs1)\<rparr>)"
  using assms unfolding normalize_dataframe_result label_clash_def
  by simp

lemma normalize_dataframe_label_clash:
  "label_clash (columns df) \<Longrightarrow> isl (normalize_dataframe pt pn df)"
  unfolding normalize_dataframe_result label_clash_def
  by (auto split: sum.splits)

text \<open>The function returns exactly when the labels do not clash and the timestamp column,
  if there is one, can be converted.\<close>

lemma normalize_dataframe_returns_iff:
  "(\<exists>df'. normalize_dataframe pt pn df = Inr df') \<longleftrightarrow>
   \<not> label_clash (columns df) \<and> \<not> isl (ts_stage pt df)"
proof
  assume "\<exists>df'. normalize_dataframe pt pn df = Inr df'"
  then obtain df' where "normalize_dataframe pt pn df = Inr df'" by blast
  from normalize_dataframe_returns[OF this]
  show "\<not> label_clash (columns df) \<and> \<not> isl (ts_stage pt df)" by auto
next
  assume a: "\<not> label_clash (columns df) \<and> \<not> isl (ts_stage pt df)"
  then obtain rs1 where "ts_stage pt df = Inr rs1"
    by (cases "ts_stage pt df") auto
  with a show "\<exists>df'. normalize_dataframe pt pn df = Inr df'"
    using normalize_dataframe_no_clash by blast
qed

subsection \<open>Columns of the result\<close>

lemma rename_label_samples:
  "rename_label ''Name'' = ''Athlete''"
  "rename_label ''Notes'' = ''Notes''"
  "rename_label ''Date'' = ''Timestamp''"
  "rename_label ''Timestamp'' = ''Timestamp''"
  "rename_label ''Athlete'' = ''Athlete''"
  "rename_label ''Sleep'' = ''Sleep''"
  "rename_label ''Sleep Quality'' = ''Sleep''"
  "rename_label ''Mood'' = ''Mood''"
  by (simp_all add: rename_label_def column_mapping_def)

lemma distinct_synonyms: "distinct synonyms"
  by (simp add: synonyms_def column_mapping_def)

lemma rename_label_synonym:
  "(c, c') \<in> set column_mapping \<Longrightarrow> rename_label c = c'"
  using map_of_is_SomeI[OF distinct_synonyms[unfolded synonyms_def], of c c']
  by (simp add: rename_label_def)

lemma rename_label_other: "c \<notin> set synonyms \<Longrightarrow> rename_label c = c"
  by (simp add: rename_label_def synonyms_def map_of_eq_None_iff[THEN iffD2])

lemma rename_label_canonical:
  assumes "c \<in> set synonyms"
  shows "rename_label c \<in> set canonical_fields"
proof -
  from assms obtain c' where m: "(c, c') \<in> set column_mapping"
    by (auto simp: synonyms_def)
  then have "rename_label c = c'"
    by (rule rename_label_synonym)
  moreover have "c' \<in> set canonical_fields"
    using m by (force simp: canonical_fields_def)
  ultimately show ?thesis by simp
qed

text \<open>
  Claim C1, as the code has it. For every table on which \<open>normalize_dataframe\<close> returns,
  the labels of the result are the input's labels in order, each replaced by
  \<open>rename_label\<close> (the canonical field of a synonym, the label itself otherwise),
  followed by \<open>Date\<close> when \<open>Timestamp\<close> is among them. So every output column is a
  canonical field or an input column outside the mapping, and every input column outside
  the mapping is still there: nothing is dropped, and nothing is merged (two columns that
  are renamed to the same field both remain). The labels of such a table do not clash.
\<close>

theorem normalize_dataframe_columns:
  assumes "normalize_dataframe pt pn df = Inr df'"
  shows "columns df' =
           map rename_label (columns df) @
             (if ''Timestamp'' \<in> set (map rename_label (columns df)) then [''Date''] else []) \<and>
         set (columns df') \<subseteq> set canonical_fields \<union> (set (columns df) - set synonyms) \<and>
         set (columns df) - set synonyms \<subseteq> set (columns df') \<and>
         \<not> label_clash (columns df)"
proof -
  from normalize_dataframe_returns[OF assms]
  have nc: "\<not> label_clash (columns df)" and cd: "columns df' = out_columns (columns df)"
    by auto
  have c: "columns df' =
             map rename_label (columns df) @
               (if ''Timestamp'' \<in> set (map rename_label (columns df)) then [''Date''] else [])"
    by (simp add: cd out_columns_def)
  have each: "rename_label x \<in> set canonical_fields \<union> (set (columns df) - set synonyms)"
    if "x \<in> set (columns df)" for x
    using that rename_label_canonical[of x] rename_label_other[of x] by (cases "x \<in> set synonyms") auto
  have sub: "set (columns df') \<subseteq> set canonical_fields \<union> (set (columns df) - set synonyms)"
    unfolding c using each by (auto simp: canonical_fields_def)
  have kept: "set (columns df) - set synonyms \<subseteq> set (columns df')"
    unfolding c using rename_label_other by force
  show ?thesis
    using c sub kept nc by blast
qed

lemma normalize_dataframe_sample_columns:
  "normalize_dataframe sample_datetime sample_numeric
     \<lparr>columns = [''Name'', ''Athlete'', ''Notes''], rows = [[Str ''A'', Str ''B'', Str ''ok'']]\<rparr> =
   Inr \<lparr>columns = [''Athlete'', ''Athlete'', ''Notes''],
        rows = [[Str ''A'', Str ''B'', Str ''ok'']]\<rparr>"
  by (simp add: normalize_dataframe_def rename_def rename_label_samples convert_timestamp_def
      numeric_columns_def sort_date_athlete_def)

theorem normalize_dataframe_columns_witness:
  "normalize_dataframe sample_datetime sample_numeric
     \<lparr>columns = [''Name'', ''Athlete'', ''Notes''], rows = [[Str ''A'', Str ''B'', Str ''ok'']]\<rparr> =
   Inr \<lparr>columns = [''Athlete'', ''Athlete'', ''Notes''],
        rows = [[Str ''A'', Str ''B'', Str ''ok'']]\<rparr> \<and>
   set [''Athlete'', ''Athlete'', ''Notes''] \<subseteq>
     set canonical_fields \<union> (set [''Name'', ''Athlete'', ''Notes''] - set synonyms) \<and>
   set [''Name'', ''Athlete'', ''Notes''] - set synonyms \<subseteq> set [''Athlete'', ''Athlete'', ''Notes''] \<and>
   \<not> label_clash [''Name'', ''Athlete'', ''Notes'']"
  using normalize_dataframe_columns[OF normalize_dataframe_sample_columns]
    normalize_dataframe_sample_columns
  by (simp add: rename_label_samples)

text \<open>
  Claim C1 as stated fails: a column outside the synonym mapping is not absent from
  the output. \<open>Notes\<close> is not a key of the mapping and the table with the columns
  \<open>Name\<close> and \<open>Notes\<close> comes back with the columns \<open>Athlete\<close> and \<open>Notes\<close>, which is not the
  canonical schema either.
\<close>

theorem normalize_dataframe_keeps_unmapped:
  "''Notes'' \<notin> set synonyms \<and> ''Notes'' \<notin> set canonical_fields \<and>
   normalize_dataframe sample_datetime sample_numeric
     \<lparr>columns = [''Name'', ''Notes''], rows = [[Str ''A'', Str ''ok'']]\<rparr> =
   Inr \<lparr>columns = [''Athlete'', ''Notes''], rows = [[Str ''A'', Str ''ok'']]\<rparr>"
proof -
  have "''Notes'' \<notin> set synonyms"
    by (simp add: synonyms_def column_mapping_def)
  moreover have "''Notes'' \<notin> set canonical_fields"
    by (simp add: canonical_fields_def column_mapping_def)
  moreover have "normalize_dataframe sample_datetime sample_numeric
     \<lparr>columns = [''Name'', ''Notes''], rows = [[Str ''A'', Str ''ok'']]\<rparr> =
   Inr \<lparr>columns = [''Athlete'', ''Notes''], rows = [[Str ''A'', Str ''ok'']]\<rparr>"
    by (simp add: normalize_dataframe_def rename_def rename_label_samples convert_timestamp_def
        numeric_columns_def sort_date_athlete_def)
  ultimately show ?thesis by simp
qed

text \<open>Two more inputs, all of whose labels are synonyms: with a single column the output
  has a single column, not the whole schema; with two synonyms of \<open>Timestamp\<close> the renaming
  makes the label ambiguous and the conversion raises.\<close>

lemma normalize_dataframe_single_column:
  "set [''Name''] \<subseteq> set synonyms \<and>
   normalize_dataframe sample_datetime sample_numeric
     \<lparr>columns = [''Name''], rows = [[Str ''A'']]\<rparr> =
   Inr \<lparr>columns = [''Athlete''], rows = [[Str ''A'']]\<rparr>"
proof -
  have "set [''Name''] \<subseteq> set synonyms"
    by (simp add: synonyms_def column_mapping_def)
  moreover have "normalize_dataframe sample_datetime sample_numeric
     \<lparr>columns = [''Name''], rows = [[Str ''A'']]\<rparr> =
   Inr \<lparr>columns = [''Athlete''], rows = [[Str ''A'']]\<rparr>"
    by (simp add: normalize_dataframe_def rename_def rename_label_samples convert_timestamp_def
        numeric_columns_def sort_date_athlete_def)
  ultimately show ?thesis by simp
qed

lemma normalize_dataframe_synonym_clash:
  "set [''Timestamp'', ''Date''] \<subseteq> set synonyms \<and>
   normalize_dataframe pt pn
     \<lparr>columns = [''Timestamp'', ''Date''], rows = [[Str ''2024-01-01 08:00'', Str ''2024-01-01'']]\<rparr> =
   Inl ValueError"
proof -
  have "set [''Timestamp'', ''Date''] \<subseteq> set synonyms"
    by (simp add: synonyms_def column_mapping_def)
  moreover have "normalize_dataframe pt pn
     \<lparr>columns = [''Timestamp'', ''Date''], rows = [[Str ''2024-01-01 08:00'', Str ''2024-01-01'']]\<rparr> =
   Inl ValueError"
    by (simp add: normalize_dataframe_def rename_def rename_label_samples convert_timestamp_def
        getitem_def to_datetime_coerce_def)
  ultimately show ?thesis by simp
qed

subsection \<open>Rows of the result\<close>

lemma map2_snd: "length cols = length r \<Longrightarrow> map2 (\<lambda>x y. y) cols r = r"
  by (induction cols r rule: list_induct2) auto

lemma map2_cong_left:
  "(\<And>c x. c \<in> set cols \<Longrightarrow> F c x = G c x) \<Longrightarrow> map2 F cols r = map2 G cols r"
  by (auto dest: set_zip_leftD)

lemma column_at_update:
  "i \<noteq> k \<Longrightarrow> column_at i (map (\<lambda>r. r[k := h r]) rs) = column_at i rs"
  by (simp add: column_at_def)

lemma col_pos_neq:
  "c \<in> set cols \<Longrightarrow> c' \<noteq> c \<Longrightarrow> col_pos c' cols \<noteq> col_pos c cols"
proof
  assume a: "c \<in> set cols" "c' \<noteq> c" "col_pos c' cols = col_pos c cols"
  show False
  proof (cases "c' \<in> set cols")
    case True
    then have "cols ! col_pos c' cols = c'" by (rule col_pos_nth)
    then show False using a col_pos_nth[of c cols] by simp
  next
    case False
    have "col_pos c' cols = length cols"
      using False by (induction cols) auto
    then show False using a col_pos_less[of c cols] by simp
  qed
qed

lemma num_rows_spec:
  assumes "distinct cs"
  shows "\<forall>r\<in>set rs. length r = length cols \<Longrightarrow>
         \<not> list_ex (\<lambda>c. 1 < count_list cols c) cs \<Longrightarrow>
         num_rows pn cols cs rs =
           map (\<lambda>r. map2 (\<lambda>c x. if c \<in> set cs
                                 then numeric_column pn (column_at (col_pos c cols) rs) x
                                 else x) cols r) rs"
  using assms
proof (induction cs arbitrary: rs)
  case Nil
  then show ?case by (simp add: map2_snd map_idI)
next
  case (Cons c cs)
  let ?F = "\<lambda>cs rs c x. if c \<in> set cs
                          then numeric_column pn (column_at (col_pos c cols) rs) x else x"
  have dcs: "distinct cs" and cn: "c \<notin> set cs"
    using Cons.prems(3) by simp_all
  have nl: "\<not> list_ex (\<lambda>c. 1 < count_list cols c) cs"
    using Cons.prems(2) by simp
  show ?case
  proof (cases "c \<in> set cols")
    case False
    have "num_rows pn cols (c # cs) rs = num_rows pn cols cs rs"
      using False by simp
    also have "\<dots> = map (\<lambda>r. map2 (?F cs rs) cols r) rs"
      using Cons.prems(1) nl dcs by (rule Cons.IH)
    also have "\<dots> = map (\<lambda>r. map2 (?F (c # cs) rs) cols r) rs"
    proof -
      have "map2 (?F cs rs) cols r = map2 (?F (c # cs) rs) cols r" for r
        by (rule map2_cong_left) (use False in auto)
      then show ?thesis by simp
    qed
    finally show ?thesis .
  next
    case True
    let ?k = "col_pos c cols"
    let ?g = "numeric_column pn (column_at ?k rs)"
    let ?rs1 = "map (\<lambda>r. r[?k := ?g (r ! ?k)]) rs"
    have k: "?k < length cols" "cols ! ?k = c"
      using True by (simp_all add: col_pos_less col_pos_nth)
    have one: "count_list cols c = 1"
      using True Cons.prems(2) by (simp add: count_list_once)
    have len1: "\<forall>r\<in>set ?rs1. length r = length cols"
      using Cons.prems(1) by simp
    have F1: "?F cs ?rs1 c' x = ?F cs rs c' x" if "c' \<in> set cols" for c' x
    proof (cases "c' = c")
      case True
      then show ?thesis using cn by simp
    next
      case False
      then have "col_pos c' cols \<noteq> ?k"
        using \<open>c \<in> set cols\<close> by (intro col_pos_neq)
      then show ?thesis
        by (simp add: column_at_update)
    qed
    have "num_rows pn cols (c # cs) rs = num_rows pn cols cs ?rs1"
      using True by simp
    also have "\<dots> = map (\<lambda>r. map2 (?F cs ?rs1) cols r) ?rs1"
      using len1 nl dcs by (rule Cons.IH)
    also have "\<dots> = map (\<lambda>r. map2 (?F cs rs) cols r) ?rs1"
    proof -
      have "map2 (?F cs ?rs1) cols r = map2 (?F cs rs) cols r" for r
        by (rule map2_cong_left) (rule F1)
      then show ?thesis by simp
    qed
    also have "\<dots> = map (\<lambda>r. map2 (?F (c # cs) rs) cols r) rs"
    proof -
      have "map2 (?F cs rs) cols (r[?k := ?g (r ! ?k)]) = map2 (?F (c # cs) rs) cols r"
        if r: "r \<in> set rs" for r
      proof (rule nth_equalityI)
        show "length (map2 (?F cs rs) cols (r[?k := ?g (r ! ?k)])) =
              length (map2 (?F (c # cs) rs) cols r)"
          by simp
      next
        fix j
        assume "j < length (map2 (?F cs rs) cols (r[?k := ?g (r ! ?k)]))"
        then have j: "j < length cols" "j < length r"
          by simp_all
        show "map2 (?F cs rs) cols (r[?k := ?g (r ! ?k)]) ! j = map2 (?F (c # cs) rs) cols r ! j"
        proof (cases "j = ?k")
          case True
          then show ?thesis
            using j k cn by simp
        next
          case False
          then have "cols ! j \<noteq> c"
            using col_pos_once[OF one j(1)] by auto
          then show ?thesis
            using j False by simp
        qed
      qed
      then show ?thesis by (simp add: o_def)
    qed
    finally show ?thesis .
  qed
qed

lemma distinct_numeric_columns: "distinct numeric_columns"
  by (simp add: numeric_columns_def)

lemma numeric_columns_not_special:
  "''Timestamp'' \<notin> set numeric_columns" "''Date'' \<notin> set numeric_columns"
  by (simp_all add: numeric_columns_def)

lemma no_numeric_clash:
  "\<not> label_clash cols \<Longrightarrow> \<not> list_ex (\<lambda>c. 1 < count_list (out_columns cols) c) numeric_columns"
  by (simp add: label_clash_def)

lemma num_rows_plain:
  assumes "\<forall>r\<in>set rs. length r = length cols"
    and "\<not> list_ex (\<lambda>c. 1 < count_list cols c) numeric_columns"
    and "''Timestamp'' \<notin> set cols"
  shows "num_rows pn cols numeric_columns rs =
         map (coerce_row f (\<lambda>c. numeric_column pn (column_at (col_pos c cols) rs)) cols) rs"
proof -
  let ?g = "\<lambda>c. numeric_column pn (column_at (col_pos c cols) rs)"
  have spec: "num_rows pn cols numeric_columns rs =
        map (\<lambda>r. map2 (\<lambda>c x. if c \<in> set numeric_columns then ?g c x else x) cols r) rs"
    using distinct_numeric_columns assms(1,2) by (rule num_rows_spec)
  have cell: "map2 (\<lambda>c x. if c \<in> set numeric_columns then ?g c x else x) cols r =
        map2 (coerce_cell f ?g) cols r" for r
  proof (rule map2_cong_left)
    fix c x
    assume "c \<in> set cols"
    then have "c \<noteq> ''Timestamp''" using assms(3) by blast
    then show "(if c \<in> set numeric_columns then ?g c x else x) = coerce_cell f ?g c x"
      by (simp add: coerce_cell_def)
  qed
  have row: "coerce_row f ?g cols r = map2 (coerce_cell f ?g) cols r" for r
    using assms(3) by (simp add: coerce_row_def)
  have "coerce_row f ?g cols = map2 (coerce_cell f ?g) cols"
    using row by blast
  then show ?thesis
    unfolding spec by (simp add: cell)
qed

lemma num_rows_ts:
  assumes len: "\<And>r. r \<in> set rs \<Longrightarrow> length r = length cols"
    and nl: "\<not> list_ex (\<lambda>c. 1 < count_list (cols @ [''Date'']) c) numeric_columns"
    and one: "count_list cols ''Timestamp'' = 1"
  shows "num_rows pn (cols @ [''Date'']) numeric_columns
           (map (ts_row f (col_pos ''Timestamp'' cols)) rs) =
         map (coerce_row f (\<lambda>c. numeric_column pn (column_at (col_pos c cols) rs)) cols) rs"
proof -
  let ?i = "col_pos ''Timestamp'' cols"
  let ?rs1 = "map (ts_row f ?i) rs"
  let ?g = "\<lambda>c. numeric_column pn (column_at (col_pos c cols) rs)"
  let ?G = "\<lambda>c x. if c \<in> set numeric_columns
                   then numeric_column pn (column_at (col_pos c (cols @ [''Date''])) ?rs1) x
                   else x"
  have ts: "''Timestamp'' \<in> set cols"
    using one count_list_0_iff[of cols "''Timestamp''"] by auto
  have len1: "\<forall>r\<in>set ?rs1. length r = length (cols @ [''Date''])"
    using len by (auto simp: ts_row_def)
  have i: "?i < length cols" "cols ! ?i = ''Timestamp''"
    using ts by (simp_all only: col_pos_less col_pos_nth)
  have G: "?G c x = (if c \<in> set numeric_columns then ?g c x else x)"
    if c: "c \<in> set cols" "c \<noteq> ''Timestamp''" for c x
  proof -
    let ?k = "col_pos c cols"
    have k1: "?k < length cols"
      using c(1) by (rule col_pos_less)
    have k2: "?k \<noteq> ?i"
      using ts c(2) by (rule col_pos_neq)
    have "ts_row f ?i r ! ?k = r ! ?k" if "r \<in> set rs" for r
      using k1 k2 len[OF that] by (simp add: ts_row_def nth_append)
    then have "column_at ?k ?rs1 = column_at ?k rs"
      by (simp add: column_at_def)
    moreover have "col_pos c (cols @ [''Date'']) = ?k"
      using c(1) by (rule col_pos_append)
    ultimately show ?thesis by simp
  qed
  have row: "map2 ?G (cols @ [''Date'']) (ts_row f ?i r) = coerce_row f ?g cols r"
    if r: "r \<in> set rs" for r
  proof -
    let ?r1 = "r[?i := f (r ! ?i)]"
    let ?d = "dt_date (f (r ! ?i))"
    have "map2 ?G (cols @ [''Date'']) (?r1 @ [?d]) = map2 ?G cols ?r1 @ [?d]"
      using len[OF r] by (simp add: numeric_columns_not_special)
    also have "map2 ?G cols ?r1 = map2 (coerce_cell f ?g) cols r"
    proof (rule nth_equalityI)
      show "length (map2 ?G cols ?r1) = length (map2 (coerce_cell f ?g) cols r)"
        by simp
    next
      fix j
      assume "j < length (map2 ?G cols ?r1)"
      then have j: "j < length cols" "j < length r"
        by simp_all
      show "map2 ?G cols ?r1 ! j = map2 (coerce_cell f ?g) cols r ! j"
      proof (cases "j = ?i")
        case True
        then show ?thesis
          using j i by (simp add: coerce_cell_def numeric_columns_not_special)
      next
        case False
        then have nt: "cols ! j \<noteq> ''Timestamp''"
          using col_pos_once[OF one j(1)] by auto
        have "cols ! j \<in> set cols"
          using j(1) by (rule nth_mem)
        from G[OF this nt] show ?thesis
          using j False nt by (simp add: coerce_cell_def)
      qed
    qed
    finally show ?thesis
      using ts by (simp add: coerce_row_def ts_row_def)
  qed
  have "num_rows pn (cols @ [''Date'']) numeric_columns ?rs1 =
        map (\<lambda>r. map2 ?G (cols @ [''Date'']) r) ?rs1"
    using distinct_numeric_columns len1 nl by (rule num_rows_spec)
  also have "\<dots> = map (\<lambda>r. map2 ?G (cols @ [''Date'']) (ts_row f ?i r)) rs"
    by (simp add: o_def)
  also have "\<dots> = map (coerce_row f ?g cols) rs"
    using row by simp
  finally show ?thesis .
qed

text \<open>After the two conversions the rows are the rows of the input coerced cell by cell.\<close>

lemma staged_rows_coerced:
  assumes "wf_df df" "\<not> label_clash (columns df)" "ts_stage pt df = Inr rs1"
  shows "num_rows pn (out_columns (columns df)) numeric_columns rs1 = coerced_rows pt pn df"
proof -
  define cs where "cs = map rename_label (columns df)"
  have len: "length r = length cs" if "r \<in> set (rows df)" for r
    using assms(1) that by (simp add: wf_df_def list_all_iff cs_def)
  have nl: "\<not> list_ex (\<lambda>c. 1 < count_list (out_columns (columns df)) c) numeric_columns"
    using assms(2) by (rule no_numeric_clash)
  have cr: "coerced_rows pt pn df =
      map (coerce_row (case datetime_column pt (column_at (col_pos ''Timestamp'' cs) (rows df)) of
                         Inl e \<Rightarrow> id | Inr f \<Rightarrow> f)
             (\<lambda>c. numeric_column pn (column_at (col_pos c cs) (rows df))) cs) (rows df)"
    by (simp add: coerced_rows_def Let_def cs_def)
  show ?thesis
  proof (cases "''Timestamp'' \<in> set cs")
    case False
    then have oc: "out_columns (columns df) = cs"
      by (simp add: out_columns_def cs_def)
    have rs1: "rs1 = rows df"
      using assms(3) False by (simp add: ts_stage_def cs_def)
    have len': "\<forall>r\<in>set (rows df). length r = length cs"
      using len by blast
    show ?thesis
      unfolding cr rs1 oc
      using len' nl[unfolded oc] False by (rule num_rows_plain)
  next
    case True
    then have oc: "out_columns (columns df) = cs @ [''Date'']"
      by (simp add: out_columns_def cs_def)
    from assms(3) True obtain f where
      f: "datetime_column pt (column_at (col_pos ''Timestamp'' cs) (rows df)) = Inr f"
      and rs1: "rs1 = map (ts_row f (col_pos ''Timestamp'' cs)) (rows df)"
      by (auto simp: ts_stage_def Let_def cs_def split: sum.splits)
    have "\<not> 1 < count_list (out_columns (columns df)) ''Timestamp''"
      using assms(2) by (simp add: label_clash_def)
    then have "\<not> 1 < count_list cs ''Timestamp''"
      by (simp add: count_list_out_columns cs_def)
    with True have one: "count_list cs ''Timestamp'' = 1"
      by (rule count_list_once)
    have "num_rows pn (cs @ [''Date'']) numeric_columns (map (ts_row f (col_pos ''Timestamp'' cs)) (rows df)) =
          map (coerce_row f (\<lambda>c. numeric_column pn (column_at (col_pos c cs) (rows df))) cs) (rows df)"
      using len nl[unfolded oc] one by (rule num_rows_ts)
    then show ?thesis
      unfolding cr rs1 oc by (simp add: f)
  qed
qed

subsection \<open>The sort\<close>

lemma mset_insert_by: "mset (insert_by le x xs) = add_mset x (mset xs)"
  by (induction xs) auto

lemma mset_sort_by: "mset (sort_by le xs) = mset xs"
  by (induction xs) (auto simp: sort_by_def mset_insert_by)

lemma set_insert_by: "set (insert_by le x xs) = insert x (set xs)"
  by (induction xs) auto

lemma length_sort_by: "length (sort_by le xs) = length xs"
  using mset_sort_by[of le xs] by (metis size_mset)

lemma set_sort_by: "set (sort_by le xs) = set xs"
  using mset_sort_by[of le xs] by (metis set_mset_mset)

lemma sorted_insert_by:
  assumes tot: "\<And>a b. le a b \<or> le b a" and tr: "\<And>a b c. le a b \<Longrightarrow> le b c \<Longrightarrow> le a c"
  shows "sorted_wrt le xs \<Longrightarrow> sorted_wrt le (insert_by le x xs)"
proof (induction xs)
  case Nil
  then show ?case by simp
next
  case (Cons y ys)
  show ?case
  proof (cases "le x y")
    case True
    then show ?thesis
      using Cons.prems tr by auto
  next
    case False
    then have "le y x" using tot by blast
    then show ?thesis
      using Cons False by (auto simp: set_insert_by)
  qed
qed

lemma sorted_sort_by:
  assumes tot: "\<And>a b. le a b \<or> le b a" and tr: "\<And>a b c. le a b \<Longrightarrow> le b c \<Longrightarrow> le a c"
  shows "sorted_wrt le (sort_by le xs)"
proof (induction xs)
  case Nil
  then show ?case by (simp add: sort_by_def)
next
  case (Cons x xs)
  have "sort_by le (x # xs) = insert_by le x (sort_by le xs)"
    by (simp add: sort_by_def)
  then show ?case
    using sorted_insert_by[of le, OF tot tr] Cons by simp
qed

lemma cell_le_total: "cell_le a b \<or> cell_le b a"
  by (cases a; cases b) (auto simp: cell_le_def cell_rank_def)

lemma cell_le_trans: "cell_le a b \<Longrightarrow> cell_le b c \<Longrightarrow> cell_le a c"
  by (cases a; cases b; cases c) (auto simp: cell_le_def cell_rank_def)

lemma cell_le_antisym: "cell_le a b \<Longrightarrow> cell_le b a \<Longrightarrow> a = b"
  by (cases a; cases b) (auto simp: cell_le_def cell_rank_def)

lemma cell_le_refl: "cell_le a a"
  by (cases a) (auto simp: cell_le_def cell_rank_def)

lemma cell_le_NA: "cell_le NA b \<longleftrightarrow> b = NA"
  by (cases b) (auto simp: cell_le_def cell_rank_def)

lemma row_le_total: "row_le i j r s \<or> row_le i j s r"
  using cell_le_total by (auto simp: row_le_def)

lemma row_le_trans:
  assumes "row_le i j r s" "row_le i j s t"
  shows "row_le i j r t"
proof (cases "r ! i = s ! i")
  case rs: True
  show ?thesis
  proof (cases "s ! i = t ! i")
    case True
    then show ?thesis
      using assms rs cell_le_trans[of "r ! j" "s ! j" "t ! j"] by (simp add: row_le_def)
  next
    case False
    then show ?thesis
      using assms rs by (simp add: row_le_def)
  qed
next
  case rs: False
  show ?thesis
  proof (cases "s ! i = t ! i")
    case True
    then show ?thesis
      using assms rs by (simp add: row_le_def)
  next
    case False
    have ab: "cell_le (r ! i) (s ! i)" and bc: "cell_le (s ! i) (t ! i)"
      using assms rs False by (simp_all add: row_le_def)
    have ac: "cell_le (r ! i) (t ! i)"
      using ab bc by (rule cell_le_trans)
    have "r ! i \<noteq> t ! i"
    proof
      assume "r ! i = t ! i"
      then have "cell_le (s ! i) (r ! i)" using bc by simp
      then have "r ! i = s ! i" using ab by (rule cell_le_antisym[rotated])
      then show False using rs by simp
    qed
    then show ?thesis
      using ac by (simp add: row_le_def)
  qed
qed

lemma sorted_rows: "sorted_wrt (row_le i j) (sort_by (row_le i j) rs)"
  by (rule sorted_sort_by) (use row_le_total row_le_trans in blast)+

lemma mset_sort_stage: "mset (sort_stage cs rs) = mset rs"
  by (simp add: sort_stage_def mset_sort_by)

lemma length_sort_stage: "length (sort_stage cs rs) = length rs"
  by (simp add: sort_stage_def length_sort_by)

subsection \<open>What a conversion does to a cell\<close>

lemma to_datetime_cell_NA: "to_datetime_cell p x = NA \<longleftrightarrow> x = NA \<or> p x = None"
  by (cases x; cases "p x") (simp_all add: to_datetime_cell_def)

lemma to_datetime_cell_instant: "is_instant (to_datetime_cell p x)"
  by (cases x; cases "p x") (simp_all add: to_datetime_cell_def is_instant_def)

lemma to_numeric_cell_NA:
  "to_numeric_cell q x = NA \<longleftrightarrow> x = NA \<or> \<not> is_number (q x) \<or> q x = NA"
  by (cases x) (simp_all add: to_numeric_cell_def)

lemma to_numeric_cell_number: "is_number (to_numeric_cell q x)"
  by (cases x) (simp_all add: to_numeric_cell_def is_number_def)

lemma datetime_column_converted:
  "list_all is_instant s \<Longrightarrow> datetime_column pt s = Inr id"
  by (simp add: datetime_column_def)

lemma numeric_column_converted:
  "list_all is_number s \<Longrightarrow> numeric_column pn s = id"
  by (simp add: numeric_column_def)

lemma numeric_column_number: "x \<in> set s \<Longrightarrow> is_number (numeric_column pn s x)"
  by (auto simp: numeric_column_def to_numeric_cell_number list_all_iff)

lemma coerce_cell_elsewhere:
  "c \<noteq> ''Timestamp'' \<Longrightarrow> c \<notin> set numeric_columns \<Longrightarrow> coerce_cell f g c x = x"
  by (simp add: coerce_cell_def)

lemma length_coerced_rows: "length (coerced_rows pt pn df) = length (rows df)"
  by (simp add: coerced_rows_def Let_def)

subsection \<open>The sample tables\<close>

lemma sample_raw_out_columns:
  "out_columns (columns sample_raw) = [''Athlete'', ''Timestamp'', ''Sleep'', ''Date'']"
  by (simp add: out_columns_def sample_raw_def rename_label_samples)

lemma sample_raw_wf: "wf_df sample_raw"
  by (simp add: sample_raw_def wf_df_def)

lemma sample_raw_no_clash: "\<not> label_clash (columns sample_raw)"
  by (simp add: label_clash_def sample_raw_out_columns numeric_columns_def)

lemma sample_raw_labels:
  "''Timestamp'' \<in> set (map rename_label (columns sample_raw))"
  "''Athlete'' \<in> set (map rename_label (columns sample_raw))"
  by (simp_all add: sample_raw_def rename_label_samples)

lemma sample_raw_datetime:
  "datetime_column sample_datetime [Num 5, Num 5, Str ''zz''] = Inr (to_datetime_cell sample_instant)"
  by (simp add: datetime_column_def is_instant_def sample_datetime_def sample_offsets_def
      sample_texts_def)

lemma sample_raw_ts_stage:
  "ts_stage sample_datetime sample_raw =
     Inr [[Str ''B'', TS 5, Str ''7'', TS 0],
          [Str ''A'', TS 5, Str ''bad'', TS 0],
          [Str ''C'', NA, Num 3, NA]]"
  by (simp add: ts_stage_def sample_raw_def rename_label_samples column_at_def sample_raw_datetime
      ts_row_def to_datetime_cell_def sample_instant_def sample_texts_def dt_date_def ns_per_day_def)

lemma sample_raw_numeric:
  "numeric_column sample_numeric [Str ''7'', Str ''bad'', Num 3] = to_numeric_cell (sample_numeric [Str ''7'', Str ''bad'', Num 3])"
  by (simp add: numeric_column_def is_number_def)

lemma sample_numeric_cells:
  "to_numeric_cell (sample_numeric s) (Str ''7'') = Num 7"
  "to_numeric_cell (sample_numeric s) (Str ''bad'') = NA"
  "to_numeric_cell (sample_numeric s) (Num 3) = Num 3"
  by (simp_all add: to_numeric_cell_def sample_numeric_def sample_float64_def is_number_def)

lemma sample_raw_coerced:
  "coerced_rows sample_datetime sample_numeric sample_raw =
     [[Str ''B'', TS 5, Num 7, TS 0], [Str ''A'', TS 5, NA, TS 0], [Str ''C'', NA, Num 3, NA]]"
  by (simp add: coerced_rows_def coerce_row_def coerce_cell_def sample_raw_def rename_label_samples
      numeric_columns_def column_at_def sample_raw_datetime sample_raw_numeric sample_numeric_cells
      to_datetime_cell_def sample_instant_def sample_texts_def dt_date_def ns_per_day_def)

lemma sample_raw_normalized:
  "normalize_dataframe sample_datetime sample_numeric sample_raw = Inr sample_normalized"
proof -
  let ?oc = "[''Athlete'', ''Timestamp'', ''Sleep'', ''Date'']"
  have s: "sort_stage ?oc (coerced_rows sample_datetime sample_numeric sample_raw) =
           rows sample_normalized"
    by (simp add: sample_raw_coerced sort_stage_def sort_by_def row_le_def
        cell_le_def cell_rank_def sample_normalized_def)
  have "normalize_dataframe sample_datetime sample_numeric sample_raw =
      Inr (sample_raw\<lparr>columns := ?oc, rows := rows sample_normalized\<rparr>)"
    using normalize_dataframe_no_clash[OF sample_raw_no_clash sample_raw_ts_stage, of sample_numeric]
      staged_rows_coerced[OF sample_raw_wf sample_raw_no_clash sample_raw_ts_stage, of sample_numeric]
    by (simp add: sample_raw_out_columns s)
  also have "\<dots> = Inr sample_normalized"
    by (simp add: sample_raw_def sample_normalized_def)
  finally show ?thesis .
qed

subsection \<open>Claims on the rows\<close>

text \<open>
  Claim C4, as the code has it. For every table whose rows fit its labels, whose labels
  do not clash after the renaming and whose timestamp column (if it has one) pandas can
  convert, \<open>normalize_dataframe\<close> does not raise: it returns as many rows as it was given,
  and its rows are, up to the order that the final sort gives them, the rows of the input
  coerced cell by cell. In a coerced row a cell under \<open>Timestamp\<close> or under a numeric label
  that does not parse is missing; the other cells of a converted column are what the
  conversion of that column makes of them, and the cells of every other column are
  unchanged.
\<close>

theorem normalize_dataframe_coerces_cells:
  assumes "wf_df df" "\<not> label_clash (columns df)" "\<not> isl (ts_stage pt df)"
  shows "\<exists>df'. normalize_dataframe pt pn df = Inr df' \<and>
           mset (rows df') = mset (coerced_rows pt pn df) \<and>
           length (rows df') = length (rows df)"
proof -
  from assms(3) obtain rs1 where rs1: "ts_stage pt df = Inr rs1"
    by (cases "ts_stage pt df") auto
  let ?oc = "out_columns (columns df)"
  let ?rs = "sort_stage ?oc (num_rows pn ?oc numeric_columns rs1)"
  have n: "normalize_dataframe pt pn df = Inr (df\<lparr>columns := ?oc, rows := ?rs\<rparr>)"
    using assms(2) rs1 by (rule normalize_dataframe_no_clash)
  have c: "num_rows pn ?oc numeric_columns rs1 = coerced_rows pt pn df"
    using assms(1,2) rs1 by (rule staged_rows_coerced)
  have m: "mset ?rs = mset (coerced_rows pt pn df)"
    by (simp only: mset_sort_stage c)
  have l: "length ?rs = length (rows df)"
    by (simp only: length_sort_stage c length_coerced_rows)
  show ?thesis
    using n m l by simp
qed

lemma sample_raw_convertible: "\<not> isl (ts_stage sample_datetime sample_raw)"
  by (simp add: sample_raw_ts_stage)

theorem normalize_dataframe_coerces_cells_witness:
  "wf_df sample_raw \<and> \<not> label_clash (columns sample_raw) \<and>
   \<not> isl (ts_stage sample_datetime sample_raw) \<and>
   (\<exists>df'. normalize_dataframe sample_datetime sample_numeric sample_raw = Inr df' \<and>
      mset (rows df') =
        mset [[Str ''B'', TS 5, Num 7, TS 0], [Str ''A'', TS 5, NA, TS 0],
              [Str ''C'', NA, Num 3, NA]] \<and>
      length (rows df') = 3)"
proof -
  from normalize_dataframe_coerces_cells[OF sample_raw_wf sample_raw_no_clash
      sample_raw_convertible, of sample_numeric]
  obtain df' where "normalize_dataframe sample_datetime sample_numeric sample_raw = Inr df'"
    and "mset (rows df') = mset (coerced_rows sample_datetime sample_numeric sample_raw)"
    and "length (rows df') = length (rows sample_raw)"
    by blast
  then have "normalize_dataframe sample_datetime sample_numeric sample_raw = Inr df' \<and>
      mset (rows df') =
        mset [[Str ''B'', TS 5, Num 7, TS 0], [Str ''A'', TS 5, NA, TS 0],
              [Str ''C'', NA, Num 3, NA]] \<and>
      length (rows df') = 3"
    by (simp add: sample_raw_coerced) (simp add: sample_raw_def)
  then show ?thesis
    using sample_raw_wf sample_raw_no_clash sample_raw_convertible by blast
qed

text \<open>
  Claim C4 as stated fails: the function can raise because of what the cells hold. The
  table \<open>sample_mixed_offsets\<close> has distinct labels and rows that fit them, and both of its
  timestamps are well formed; they carry different UTC offsets, the conversion of the
  column raises in spite of \<open>errors='coerce'\<close>, and so does \<open>normalize_dataframe\<close>.
\<close>

theorem normalize_dataframe_mixed_offsets:
  "wf_df sample_mixed_offsets \<and> \<not> label_clash (columns sample_mixed_offsets) \<and>
   normalize_dataframe sample_datetime sample_numeric sample_mixed_offsets = Inl ValueError"
proof -
  have oc: "out_columns (columns sample_mixed_offsets) = [''Athlete'', ''Timestamp'', ''Date'']"
    by (simp add: out_columns_def sample_mixed_offsets_def rename_label_samples)
  have wf: "wf_df sample_mixed_offsets"
    by (simp add: sample_mixed_offsets_def wf_df_def)
  have nc: "\<not> label_clash (columns sample_mixed_offsets)"
    by (simp add: label_clash_def oc numeric_columns_def)
  have d: "datetime_column sample_datetime
             [Str ''2024-01-01T08:00:00+01:00'', Str ''2024-01-02T08:00:00+02:00''] = Inl ValueError"
    by (simp add: datetime_column_def is_instant_def sample_datetime_def sample_offsets_def
        sample_texts_def)
  have ts: "ts_stage sample_datetime sample_mixed_offsets = Inl ValueError"
    by (simp add: ts_stage_def sample_mixed_offsets_def rename_label_samples column_at_def d)
  have "normalize_dataframe sample_datetime sample_numeric sample_mixed_offsets = Inl ValueError"
    unfolding normalize_dataframe_result by (simp add: oc ts)
  then show ?thesis
    using wf nc by simp
qed

text \<open>Nor is a failed coercion confined to its cell: the conversion casts the whole
  column to float64, so in \<open>sample_cast\<close> the text that is no number becomes missing, the
  number 2^53 + 1 beside it comes back rounded, and the text \<open>1e400\<close> comes back as an
  infinity, not as missing.\<close>

lemma normalize_dataframe_casts_column:
  "normalize_dataframe sample_datetime sample_numeric sample_cast =
     Inr \<lparr>columns = [''Athlete'', ''Mood''],
          rows = [[Str ''A'', Num 9007199254740992], [Str ''B'', NA], [Str ''C'', Inf True]]\<rparr>"
proof -
  have oc: "out_columns (columns sample_cast) = [''Athlete'', ''Mood'']"
    by (simp add: out_columns_def sample_cast_def rename_label_samples)
  have wf: "wf_df sample_cast"
    by (simp add: sample_cast_def wf_df_def)
  have nc: "\<not> label_clash (columns sample_cast)"
    by (simp add: label_clash_def oc numeric_columns_def)
  have ts: "ts_stage sample_datetime sample_cast = Inr (rows sample_cast)"
    by (simp add: ts_stage_def sample_cast_def rename_label_samples)
  have nm: "numeric_column sample_numeric [Num 9007199254740993, Str ''n/a'', Str ''1e400''] =
        to_numeric_cell (sample_numeric [Num 9007199254740993, Str ''n/a'', Str ''1e400''])"
    by (simp add: numeric_column_def is_number_def)
  have cells:
    "to_numeric_cell (sample_numeric s) (Num 9007199254740993) = Num 9007199254740992"
    "to_numeric_cell (sample_numeric s) (Str ''n/a'') = NA"
    "to_numeric_cell (sample_numeric s) (Str ''1e400'') = Inf True" for s
    by (simp_all add: to_numeric_cell_def sample_numeric_def sample_float64_def is_number_def)
  have cr: "coerced_rows sample_datetime sample_numeric sample_cast =
      [[Str ''A'', Num 9007199254740992], [Str ''B'', NA], [Str ''C'', Inf True]]"
    by (simp add: coerced_rows_def coerce_row_def coerce_cell_def sample_cast_def
        rename_label_samples numeric_columns_def column_at_def nm cells)
  have "normalize_dataframe sample_datetime sample_numeric sample_cast =
      Inr (sample_cast\<lparr>columns := [''Athlete'', ''Mood''],
             rows := [[Str ''A'', Num 9007199254740992], [Str ''B'', NA], [Str ''C'', Inf True]]\<rparr>)"
    using normalize_dataframe_no_clash[OF nc ts, of sample_numeric]
      staged_rows_coerced[OF wf nc ts, of sample_numeric]
    by (simp add: oc cr sort_stage_def)
  then show ?thesis
    by (simp add: sample_cast_def)
qed

text \<open>
  Claim C5. For every table on which \<open>normalize_dataframe\<close> returns and which, after the
  renaming, has a \<open>Timestamp\<close> column (from which \<open>Date\<close> is made) and an \<open>Athlete\<close> column,
  the rows of the result are in ascending order of the pair (\<open>Date\<close>, \<open>Athlete\<close>), and no row
  with a known date comes after a row whose date is missing.
\<close>

theorem normalize_dataframe_sorted:
  assumes "normalize_dataframe pt pn df = Inr df'"
    and "''Timestamp'' \<in> set (map rename_label (columns df))"
    and "''Athlete'' \<in> set (map rename_label (columns df))"
  shows "''Date'' \<in> set (columns df') \<and> ''Athlete'' \<in> set (columns df') \<and>
         sorted_wrt (row_le (col_pos ''Date'' (columns df')) (col_pos ''Athlete'' (columns df')))
           (rows df') \<and>
         (\<forall>a b. a < b \<and> b < length (rows df') \<and>
                rows df' ! a ! col_pos ''Date'' (columns df') = NA \<longrightarrow>
                rows df' ! b ! col_pos ''Date'' (columns df') = NA)"
proof -
  let ?cs = "out_columns (columns df)"
  let ?i = "col_pos ''Date'' ?cs" and ?j = "col_pos ''Athlete'' ?cs"
  from normalize_dataframe_returns[OF assms(1)] obtain rs1 where
    df': "df' = df\<lparr>columns := ?cs, rows := sort_stage ?cs (num_rows pn ?cs numeric_columns rs1)\<rparr>"
    by blast
  let ?rs = "sort_stage ?cs (num_rows pn ?cs numeric_columns rs1)"
  have d: "''Date'' \<in> set ?cs" and a: "''Athlete'' \<in> set ?cs"
    using assms(2,3) by (simp_all add: out_columns_def)
  have rs: "?rs = sort_by (row_le ?i ?j) (num_rows pn ?cs numeric_columns rs1)"
    using d a by (simp add: sort_stage_def)
  have s: "sorted_wrt (row_le ?i ?j) ?rs"
    unfolding rs by (rule sorted_rows)
  have na: "?rs ! b ! ?i = NA" if "a < b" "b < length ?rs" "?rs ! a ! ?i = NA" for a b
  proof -
    have "row_le ?i ?j (?rs ! a) (?rs ! b)"
      using s that(1,2) by (simp add: sorted_wrt_iff_nth_less)
    then show ?thesis
      using that(3) by (auto simp: row_le_def cell_le_NA split: if_splits)
  qed
  then have na': "\<forall>a b. a < b \<and> b < length ?rs \<and> ?rs ! a ! ?i = NA \<longrightarrow> ?rs ! b ! ?i = NA"
    by blast
  show ?thesis
    unfolding df' using d a s na' by simp
qed

theorem normalize_dataframe_sorted_witness:
  "normalize_dataframe sample_datetime sample_numeric sample_raw = Inr sample_normalized \<and>
   ''Timestamp'' \<in> set (map rename_label (columns sample_raw)) \<and>
   ''Athlete'' \<in> set (map rename_label (columns sample_raw)) \<and>
   sorted_wrt (row_le 3 0) (rows sample_normalized) \<and>
   rows sample_normalized ! 2 ! 3 = NA"
proof -
  from normalize_dataframe_sorted[OF sample_raw_normalized sample_raw_labels]
  have "sorted_wrt (row_le (col_pos ''Date'' (columns sample_normalized))
                           (col_pos ''Athlete'' (columns sample_normalized)))
          (rows sample_normalized)"
    by simp
  then have "sorted_wrt (row_le 3 0) (rows sample_normalized)"
    by (simp add: sample_normalized_def numeral_3_eq_3)
  moreover have "rows sample_normalized ! 2 ! 3 = NA"
    by (simp add: sample_normalized_def)
  ultimately show ?thesis
    using sample_raw_labels sample_raw_normalized by simp
qed

text \<open>The sort is also reached, and the result sorted, when two columns are renamed to
  the same field that is neither a key of the sort nor converted.\<close>

lemma normalize_dataframe_twin_columns:
  "normalize_dataframe sample_datetime sample_numeric
     \<lparr>columns = [''Name'', ''Date'', ''Sleep Text'', ''Sleep Duration''],
      rows = [[Str ''B'', Num 5, Str ''ok'', Str ''8h''],
              [Str ''A'', Num 5, Str ''bad'', Str ''5h'']]\<rparr> =
   Inr \<lparr>columns = [''Athlete'', ''Timestamp'', ''SleepText'', ''SleepText'', ''Date''],
        rows = [[Str ''A'', TS 5, Str ''bad'', Str ''5h'', TS 0],
                [Str ''B'', TS 5, Str ''ok'', Str ''8h'', TS 0]]\<rparr>"
proof -
  let ?df = "\<lparr>columns = [''Name'', ''Date'', ''Sleep Text'', ''Sleep Duration''],
      rows = [[Str ''B'', Num 5, Str ''ok'', Str ''8h''],
              [Str ''A'', Num 5, Str ''bad'', Str ''5h'']]\<rparr>"
  have r: "rename_label ''Sleep Text'' = ''SleepText''" "rename_label ''Sleep Duration'' = ''SleepText''"
    by (simp_all add: rename_label_def column_mapping_def)
  have oc: "out_columns [''Name'', ''Date'', ''Sleep Text'', ''Sleep Duration''] =
      [''Athlete'', ''Timestamp'', ''SleepText'', ''SleepText'', ''Date'']"
    by (simp add: out_columns_def rename_label_samples r)
  have wf: "wf_df ?df"
    by (simp add: wf_df_def)
  have nc: "\<not> label_clash (columns ?df)"
    by (simp add: label_clash_def oc numeric_columns_def)
  have d: "datetime_column sample_datetime [Num 5, Num 5] = Inr (to_datetime_cell sample_instant)"
    by (simp add: datetime_column_def is_instant_def sample_datetime_def sample_offsets_def)
  have ts: "ts_stage sample_datetime ?df =
      Inr [[Str ''B'', TS 5, Str ''ok'', Str ''8h'', TS 0],
           [Str ''A'', TS 5, Str ''bad'', Str ''5h'', TS 0]]"
    by (simp add: ts_stage_def rename_label_samples r column_at_def d ts_row_def
        to_datetime_cell_def sample_instant_def dt_date_def ns_per_day_def)
  have cr: "coerced_rows sample_datetime sample_numeric ?df =
      [[Str ''B'', TS 5, Str ''ok'', Str ''8h'', TS 0],
       [Str ''A'', TS 5, Str ''bad'', Str ''5h'', TS 0]]"
    by (simp add: coerced_rows_def coerce_row_def coerce_cell_def rename_label_samples r
        numeric_columns_def column_at_def d to_datetime_cell_def sample_instant_def dt_date_def
        ns_per_day_def)
  have s: "sort_stage [''Athlete'', ''Timestamp'', ''SleepText'', ''SleepText'', ''Date'']
             [[Str ''B'', TS 5, Str ''ok'', Str ''8h'', TS 0],
              [Str ''A'', TS 5, Str ''bad'', Str ''5h'', TS 0]] =
           [[Str ''A'', TS 5, Str ''bad'', Str ''5h'', TS 0],
            [Str ''B'', TS 5, Str ''ok'', Str ''8h'', TS 0]]"
    by (simp add: sort_stage_def sort_by_def row_le_def cell_le_def cell_rank_def)
  show ?thesis
    using normalize_dataframe_no_clash[OF nc ts, of sample_numeric]
      staged_rows_coerced[OF wf nc ts, of sample_numeric]
    by (simp add: oc cr s)
qed

text \<open>
  Claim C8, as the code has it. \<open>normalize_dataframe\<close> applied to an empty table (no rows,
  or no columns) whose labels do not clash after the renaming returns an empty table with
  as many rows and does not raise, whatever the parsers are. The table with no rows and no
  columns comes back as it is.
\<close>

theorem normalize_dataframe_empty:
  assumes "df_empty df" "\<not> label_clash (columns df)"
  shows "\<exists>df'. normalize_dataframe pt pn df = Inr df' \<and> df_empty df' \<and>
           length (rows df') = length (rows df) \<and>
           normalize_dataframe pt pn \<lparr>columns = [], rows = []\<rparr> = Inr \<lparr>columns = [], rows = []\<rparr>"
proof -
  let ?oc = "out_columns (columns df)"
  have ts: "\<exists>rs1. ts_stage pt df = Inr rs1 \<and> length rs1 = length (rows df)"
  proof (cases "rows df = []")
    case True
    then show ?thesis
      by (simp add: ts_stage_def Let_def column_at_def datetime_column_def)
  next
    case False
    then have "columns df = []"
      using assms(1) by (simp add: df_empty_def)
    then show ?thesis
      by (simp add: ts_stage_def)
  qed
  then obtain rs1 where rs1: "ts_stage pt df = Inr rs1" and l1: "length rs1 = length (rows df)"
    by blast
  have ln: "length (num_rows pn cols cs rs) = length rs" for cols cs rs
    by (induction cs arbitrary: rs) simp_all
  let ?rs = "sort_stage ?oc (num_rows pn ?oc numeric_columns rs1)"
  have n: "normalize_dataframe pt pn df = Inr (df\<lparr>columns := ?oc, rows := ?rs\<rparr>)"
    using assms(2) rs1 by (rule normalize_dataframe_no_clash)
  have l: "length ?rs = length (rows df)"
    by (simp add: length_sort_stage ln l1)
  have e: "?oc = [] \<or> ?rs = []"
    using assms(1) l by (auto simp: df_empty_def out_columns_def)
  have z: "normalize_dataframe pt pn \<lparr>columns = [], rows = []\<rparr> = Inr \<lparr>columns = [], rows = []\<rparr>"
    by (simp add: normalize_dataframe_def rename_def convert_timestamp_def numeric_columns_def
        sort_date_athlete_def)
  show ?thesis
    using n l e z by (simp add: df_empty_def)
qed

theorem normalize_dataframe_empty_witness:
  "df_empty \<lparr>columns = [''Name'', ''Date''], rows = []\<rparr> \<and>
   \<not> label_clash [''Name'', ''Date''] \<and>
   (\<exists>df'. normalize_dataframe sample_datetime sample_numeric
            \<lparr>columns = [''Name'', ''Date''], rows = []\<rparr> = Inr df' \<and>
          df_empty df' \<and> length (rows df') = 0)"
proof -
  have oc: "out_columns [''Name'', ''Date''] = [''Athlete'', ''Timestamp'', ''Date'']"
    by (simp add: out_columns_def rename_label_samples)
  have nc: "\<not> label_clash [''Name'', ''Date'']"
    unfolding label_clash_def oc by (simp add: numeric_columns_def)
  show ?thesis
    using normalize_dataframe_empty[of "\<lparr>columns = [''Name'', ''Date''], rows = []\<rparr>"
        sample_datetime sample_numeric] nc
    by (simp add: df_empty_def) blast
qed

text \<open>
  Claim C8 as stated fails: a table with a header and no rows is empty, and when its
  header holds both \<open>Timestamp\<close> and \<open>Date\<close> the renaming makes the label \<open>Timestamp\<close>
  ambiguous and \<open>normalize_dataframe\<close> raises, with no row at all.
\<close>

theorem normalize_dataframe_empty_raises:
  "df_empty sample_header_only \<and>
   normalize_dataframe sample_datetime sample_numeric sample_header_only = Inl ValueError"
proof -
  have "df_empty sample_header_only"
    by (simp add: df_empty_def sample_header_only_def)
  moreover have
    "normalize_dataframe sample_datetime sample_numeric sample_header_only = Inl ValueError"
    by (simp add: normalize_dataframe_def rename_def rename_label_samples convert_timestamp_def
        getitem_def to_datetime_coerce_def sample_header_only_def)
  ultimately show ?thesis by simp
qed

subsection \<open>Normalizing a canonical table\<close>

lemma canonical_fields_set:
  "set canonical_fields =
     {''Date'', ''Timestamp'', ''Athlete'', ''SleepText'', ''Sleep'', ''Mood'', ''Energy'',
      ''Stress'', ''Soreness'', ''Fatigue''}"
  by (auto simp: canonical_fields_def column_mapping_def)

lemma rename_label_canonical_samples:
  "rename_label ''Timestamp'' = ''Timestamp''"
  "rename_label ''Athlete'' = ''Athlete''"
  "rename_label ''SleepText'' = ''SleepText''"
  "rename_label ''Sleep'' = ''Sleep''"
  "rename_label ''Mood'' = ''Mood''"
  "rename_label ''Energy'' = ''Energy''"
  "rename_label ''Stress'' = ''Stress''"
  "rename_label ''Soreness'' = ''Soreness''"
  "rename_label ''Fatigue'' = ''Fatigue''"
  by (simp_all add: rename_label_def column_mapping_def)

lemma rename_label_fixed:
  "c \<in> set canonical_fields \<Longrightarrow> c \<noteq> ''Date'' \<Longrightarrow> rename_label c = c"
  unfolding canonical_fields_set
  by (elim insertE emptyE) (simp_all only: rename_label_canonical_samples simp_thms)

lemma count_list_map_two:
  "x \<in> set xs \<Longrightarrow> y \<in> set xs \<Longrightarrow> x \<noteq> y \<Longrightarrow> f x = v \<Longrightarrow> f y = v \<Longrightarrow>
   1 < count_list (map f xs) v"
proof (induction xs)
  case Nil
  then show ?case by simp
next
  case (Cons z zs)
  have pos: "0 < count_list (map f zs) v" if "w \<in> set zs" "f w = v" for w
    using that by (metis count_list_0_iff gr0I image_eqI list.set_map)
  show ?case
  proof (cases "z = x")
    case True
    then have "y \<in> set zs" using Cons.prems by auto
    then show ?thesis using pos[of y] Cons.prems True by simp
  next
    case zx: False
    show ?thesis
    proof (cases "z = y")
      case True
      then have "x \<in> set zs" using Cons.prems by auto
      then show ?thesis using pos[of x] Cons.prems True by simp
    next
      case False
      then show ?thesis using Cons zx by auto
    qed
  qed
qed

lemma normalize_dataframe_Timestamp_and_Date:
  assumes "''Timestamp'' \<in> set (columns df)" "''Date'' \<in> set (columns df)"
  shows "normalize_dataframe pt pn df = Inl ValueError"
proof -
  have "1 < count_list (map rename_label (columns df)) ''Timestamp''"
    using assms by (rule count_list_map_two) (simp_all add: rename_label_samples)
  then have "convert_timestamp pt (rename df) = Inl ValueError"
    by (intro convert_timestamp_frame) (simp add: rename_def)
  then show ?thesis
    by (simp add: normalize_dataframe_def)
qed

lemma map2_fixed:
  "length cols = length r \<Longrightarrow> (\<And>j. j < length r \<Longrightarrow> f (cols ! j) (r ! j) = r ! j) \<Longrightarrow>
   map2 f cols r = r"
  by (rule nth_equalityI) simp_all

lemma count_list_distinct_le: "distinct xs \<Longrightarrow> \<not> 1 < count_list xs x"
  by (induction xs) (auto simp: count_list_0_iff)

text \<open>
  Claim C3, as the code has it. On a table in canonical form that has neither a
  \<open>Timestamp\<close> nor a \<open>Date\<close> column, \<open>normalize_dataframe\<close> is the identity: the same
  columns, the same rows.
\<close>

theorem normalize_dataframe_canonical_metrics:
  assumes "canonical_form df"
    and "''Timestamp'' \<notin> set (columns df)" "''Date'' \<notin> set (columns df)"
  shows "normalize_dataframe pt pn df = Inr df"
proof -
  let ?cols = "columns df"
  have wf: "wf_df df" and dist: "distinct ?cols" and sub: "set ?cols \<subseteq> set canonical_fields"
    and nums: "list_all (column_all is_number df) numeric_columns"
    using assms(1) by (simp_all add: canonical_form_def)
  have "rename_label c = c" if "c \<in> set ?cols" for c
    using that sub assms(3) by (intro rename_label_fixed) auto
  then have ren: "map rename_label ?cols = ?cols"
    by (simp add: map_idI)
  have oc: "out_columns ?cols = ?cols"
    using assms(2) by (simp add: out_columns_def ren)
  have nc: "\<not> label_clash ?cols"
    using count_list_distinct_le[OF dist] assms(3) by (simp add: label_clash_def oc list_ex_iff)
  have ts: "ts_stage pt df = Inr (rows df)"
    using assms(2) by (simp add: ts_stage_def ren)
  let ?g = "\<lambda>c. numeric_column pn (column_at (col_pos c ?cols) (rows df))"
  have g: "?g c = id" if "c \<in> set ?cols" "c \<in> set numeric_columns" for c
  proof -
    have "list_all (\<lambda>r. is_number (r ! col_pos c ?cols)) (rows df)"
      using nums that by (auto simp: list_all_iff column_all_def)
    then have "list_all is_number (column_at (col_pos c ?cols) (rows df))"
      by (simp add: column_at_def list_all_iff)
    then show ?thesis
      by (rule numeric_column_converted)
  qed
  have row: "coerce_row f ?g ?cols r = r" if r: "r \<in> set (rows df)" for r f
  proof -
    have len: "length r = length ?cols"
      using wf r by (simp add: wf_df_def list_all_iff)
    have "coerce_cell f ?g (?cols ! j) (r ! j) = r ! j" if j: "j < length r" for j
    proof -
      have mem: "?cols ! j \<in> set ?cols"
        using j len by simp
      then have nt: "?cols ! j \<noteq> ''Timestamp''"
        using assms(2) by metis
      show ?thesis
      proof (cases "?cols ! j \<in> set numeric_columns")
        case True
        then show ?thesis
          using nt g[OF mem True] by (simp add: coerce_cell_def)
      next
        case False
        then show ?thesis
          using nt by (simp add: coerce_cell_def)
      qed
    qed
    then have "map2 (coerce_cell f ?g) ?cols r = r"
      using len by (intro map2_fixed) simp_all
    then show ?thesis
      using assms(2) by (simp add: coerce_row_def)
  qed
  have "num_rows pn (out_columns ?cols) numeric_columns (rows df) = coerced_rows pt pn df"
    using wf nc ts by (rule staged_rows_coerced)
  also have "\<dots> = rows df"
    using row by (simp add: coerced_rows_def Let_def ren map_idI)
  finally have st: "num_rows pn ?cols numeric_columns (rows df) = rows df"
    by (simp only: oc)
  have so: "sort_stage ?cols (rows df) = rows df"
    using assms(3) by (simp add: sort_stage_def)
  show ?thesis
    using normalize_dataframe_no_clash[OF nc ts, of pn] by (simp add: oc st so)
qed

lemma sample_metrics_canonical: "canonical_form sample_metrics"
  by (simp add: canonical_form_def sample_metrics_def wf_df_def canonical_fields_set
      column_all_def is_number_def is_instant_def numeric_columns_def)

theorem normalize_dataframe_canonical_metrics_witness:
  "canonical_form sample_metrics \<and> ''Timestamp'' \<notin> set (columns sample_metrics) \<and>
   ''Date'' \<notin> set (columns sample_metrics) \<and>
   normalize_dataframe sample_datetime sample_numeric sample_metrics = Inr sample_metrics"
proof -
  have t: "''Timestamp'' \<notin> set (columns sample_metrics)"
    and d: "''Date'' \<notin> set (columns sample_metrics)"
    by (simp_all add: sample_metrics_def)
  show ?thesis
    using normalize_dataframe_canonical_metrics[OF sample_metrics_canonical t d,
        of sample_datetime sample_numeric]
      sample_metrics_canonical t d
    by simp
qed

text \<open>
  Claim C3 as stated fails. The table that \<open>normalize_dataframe\<close> returns for the sample
  input is in canonical form, and normalizing it again raises: its \<open>Date\<close> column is
  renamed to \<open>Timestamp\<close>, the label is then ambiguous and the conversion refuses it.
\<close>

theorem normalize_dataframe_not_idempotent:
  "normalize_dataframe sample_datetime sample_numeric sample_raw = Inr sample_normalized \<and>
   canonical_form sample_normalized \<and>
   normalize_dataframe sample_datetime sample_numeric sample_normalized = Inl ValueError"
proof -
  have "canonical_form sample_normalized"
    by (simp add: canonical_form_def sample_normalized_def wf_df_def canonical_fields_set
        column_all_def is_number_def is_instant_def numeric_columns_def)
  moreover have "normalize_dataframe sample_datetime sample_numeric sample_normalized = Inl ValueError"
    by (rule normalize_dataframe_Timestamp_and_Date) (simp_all add: sample_normalized_def)
  ultimately show ?thesis
    using sample_raw_normalized by simp
qed

section \<open>Properties of ingestion\<close>

lemma try_remote_attempts: "fst (try_remote env) = (if credentials_exist env then [Remote] else [])"
  by (simp add: try_remote_def)







section \<open>Properties of the import\<close>

lemma Credentials_unbound:
  "lookup_name module_names ''Credentials'' = Inl (NameError ''Credentials'')"
  "lookup_name (''creds_dict'' # module_names) ''Credentials'' = Inl (NameError ''Credentials'')"
  by (simp_all add: lookup_name_def module_names_def)

lemma import_data_loader_fails: "isl (import_data_loader env)"
  by (simp add: import_data_loader_def Credentials_unbound split: sum.splits bool.splits)

text \<open>
  Claim C9. Importing the module raises in every environment: when the library imports,
  the secrets lookup and the JSON decoding all succeed, the name \<open>Credentials\<close> is
  unbound and the import ends in NameError, on either branch of the test; otherwise an
  earlier step has already raised. \<open>load_google_sheet\<close> is never defined, so what the
  application gets is that error, whatever \<open>use_fallback\<close> is and whatever the remote source
  and the fallback file hold.
\<close>

theorem import_data_loader_raises:
  "(\<exists>e. import_data_loader ienv = Inl e \<and>
        (\<forall>pt pn env use_fallback. app_load ienv pt pn env use_fallback = Inl e)) \<and>
   (\<forall>b. import_data_loader
          (ienv\<lparr>library_imports := Inr (), secrets_lookup := Inr b, secrets_json := Inr ()\<rparr>) =
        Inl (NameError ''Credentials''))"
proof -
  obtain e where e: "import_data_loader ienv = Inl e"
    using import_data_loader_fails[of ienv] by (auto simp: isl_def)
  then have "\<forall>pt pn env use_fallback. app_load ienv pt pn env use_fallback = Inl e"
    by (simp add: app_load_def)
  moreover have "import_data_loader
          (ienv\<lparr>library_imports := Inr (), secrets_lookup := Inr b, secrets_json := Inr ()\<rparr>) =
        Inl (NameError ''Credentials'')" for b
    by (cases b) (simp_all add: import_data_loader_def Credentials_unbound)
  ultimately show ?thesis
    using e by blast
qed

section \<open>Properties of get_athletes\<close>

lemma set_dropna: "set (dropna s) = set s - {NA}"
  by (auto simp: dropna_def)

lemma set_unique: "set (unique s) = set s"
  by (simp add: unique_def)

lemma distinct_unique: "distinct (unique s)"
  by (simp add: unique_def)

lemma same_kind_iff:
  "same_kind xs \<longleftrightarrow> (\<forall>x\<in>set xs. \<forall>y\<in>set xs. cell_rank x = cell_rank y)"
  unfolding same_kind_def list_all_iff by (rule refl)

lemma same_kind_unique: "same_kind s \<Longrightarrow> same_kind (unique s)"
  unfolding same_kind_iff set_unique by assumption

lemma sorted_py_ok:
  assumes "same_kind xs" "distinct xs"
  shows "\<exists>ys. sorted_py xs = Inr ys \<and> sorted_wrt cell_le ys \<and> distinct ys \<and> set ys = set xs"
proof -
  have "sorted_wrt cell_le (sort_by cell_le xs)"
    by (rule sorted_sort_by) (use cell_le_total cell_le_trans in blast)+
  moreover have "distinct (sort_by cell_le xs)"
    using assms(2) mset_sort_by[of cell_le xs] by (metis mset_eq_imp_distinct_iff)
  ultimately show ?thesis
    using assms(1) by (simp add: sorted_py_def set_sort_by)
qed

text \<open>
  Claim C10, as the code has it. For every table with at most one \<open>Athlete\<close> column
  whose non-missing values are all of one kind (all strings, or all numbers),
  \<open>get_athletes\<close> returns the distinct non-missing values of that column in ascending
  order; for a table with no \<open>Athlete\<close> column it returns the empty list and does not
  raise.
\<close>

theorem get_athletes_sorted_distinct:
  assumes "count_list (columns df) ''Athlete'' \<le> 1" "same_kind (athlete_values df)"
  shows "\<exists>ys. get_athletes df = Inr ys \<and> sorted_wrt cell_le ys \<and> distinct ys \<and>
           set ys = set (athlete_values df) \<and>
           (''Athlete'' \<in> set (columns df) \<or> ys = [])"
proof (cases "''Athlete'' \<in> set (columns df)")
  case False
  then show ?thesis
    by (simp add: get_athletes_def athlete_values_def)
next
  case True
  let ?s = "column_at (col_pos ''Athlete'' (columns df)) (rows df)"
  have "count_list (columns df) ''Athlete'' \<noteq> 0"
    using True by (simp add: count_list_0_iff)
  then have "count_list (columns df) ''Athlete'' = 1"
    using assms(1) by simp
  then have g: "get_athletes df = sorted_py (unique (dropna ?s))"
    using True by (simp add: get_athletes_def getitem_def)
  have "same_kind (unique (dropna ?s))"
    using assms(2) True by (simp add: athlete_values_def same_kind_unique)
  from sorted_py_ok[OF this distinct_unique]
  obtain ys where "sorted_py (unique (dropna ?s)) = Inr ys" "sorted_wrt cell_le ys" "distinct ys"
    "set ys = set (unique (dropna ?s))"
    by blast
  then show ?thesis
    using g True by (simp add: athlete_values_def set_unique)
qed

lemma sample_athletes_ok:
  "count_list (columns sample_athletes) ''Athlete'' \<le> 1"
  "athlete_values sample_athletes = [Str ''Bo'', Str ''Al'', Str ''Bo'']"
  "same_kind (athlete_values sample_athletes)"
  by (simp_all add: sample_athletes_def athlete_values_def column_at_def dropna_def same_kind_def
      cell_rank_def)

theorem get_athletes_sorted_distinct_witness:
  "count_list (columns sample_athletes) ''Athlete'' \<le> 1 \<and>
   same_kind (athlete_values sample_athletes) \<and>
   get_athletes sample_athletes = Inr [Str ''Al'', Str ''Bo'']"
proof -
  from get_athletes_sorted_distinct[OF sample_athletes_ok(1,3)]
  obtain ys where ys: "get_athletes sample_athletes = Inr ys"
    by blast
  have "get_athletes sample_athletes = sorted_py (unique (athlete_values sample_athletes))"
    by (simp add: get_athletes_def getitem_def athlete_values_def sample_athletes_def)
  also have "unique (athlete_values sample_athletes) = [Str ''Bo'', Str ''Al'']"
    by (simp add: sample_athletes_ok(2) unique_def)
  also have "sorted_py [Str ''Bo'', Str ''Al''] = Inr (sort_by cell_le [Str ''Bo'', Str ''Al''])"
    by (simp add: sorted_py_def same_kind_def cell_rank_def)
  also have "sort_by cell_le [Str ''Bo'', Str ''Al''] = [Str ''Al'', Str ''Bo'']"
    by (simp add: sort_by_def cell_le_def cell_rank_def)
  finally have "get_athletes sample_athletes = Inr [Str ''Al'', Str ''Bo'']" .
  then show ?thesis
    using ys sample_athletes_ok(1,3) by simp
qed

text \<open>
  Claim C10 as stated fails: it does not hold for every table. With a string and a
  number under \<open>Athlete\<close>, Python's \<open>sorted\<close> cannot compare the two and
  \<open>get_athletes\<close> raises TypeError.
\<close>

theorem get_athletes_mixed_kinds:
  "get_athletes sample_mixed = Inl TypeError"
  by (simp add: get_athletes_def getitem_def sample_mixed_def column_at_def dropna_def
      unique_def sorted_py_def same_kind_def cell_rank_def)

lemma get_athletes_two_columns:
  "get_athletes \<lparr>columns = [''Athlete'', ''Athlete''], rows = [[Str ''Al'', Str ''Al'']]\<rparr> =
   Inl AttributeError"
  by (simp add: get_athletes_def getitem_def)

section \<open>Properties of the derived metrics\<close>

lemma known_weighted_empty:
  "length ws = length cs \<Longrightarrow>
   known (map2 (\<lambda>w c. map_option (Pair w) c) ws cs) = [] \<longleftrightarrow> (\<forall>c\<in>set cs. c = None)"
proof (induction ws cs rule: list_induct2)
  case Nil
  then show ?case by simp
next
  case (Cons w ws c cs)
  then show ?case by (cases c) auto
qed

lemma known_weighted_mem:
  "(w, v) \<in> set (known (map2 (\<lambda>w c. map_option (Pair w) c) ws cs)) \<Longrightarrow>
   w \<in> set ws \<and> Some v \<in> set cs"
proof (induction ws arbitrary: cs)
  case Nil
  then show ?case by simp
next
  case (Cons a ws)
  show ?case
  proof (cases cs)
    case Nil
    then show ?thesis using Cons.prems by simp
  next
    case (Cons c cs')
    then show ?thesis
      using Cons.prems Cons.IH[of cs'] by (cases c) auto
  qed
qed

lemma known_mem: "x \<in> set (known xs) \<longleftrightarrow> Some x \<in> set xs"
  by (induction xs rule: known.induct) auto

lemma weighted_sum_bounds:
  fixes wvs :: "(real \<times> real) list"
  assumes "\<And>w v. (w, v) \<in> set wvs \<Longrightarrow> 0 < w \<and> lo \<le> v \<and> v \<le> hi"
  shows "lo * sum_list (map fst wvs) \<le> sum_list (map (\<lambda>(w, v). w * v) wvs) \<and>
         sum_list (map (\<lambda>(w, v). w * v) wvs) \<le> hi * sum_list (map fst wvs) \<and>
         0 \<le> sum_list (map fst wvs) \<and>
         (wvs \<noteq> [] \<longrightarrow> 0 < sum_list (map fst wvs))"
  using assms
proof (induction wvs)
  case Nil
  then show ?case by simp
next
  case (Cons a wvs)
  obtain w v where a: "a = (w, v)" by (cases a)
  have wv: "0 < w" "lo \<le> v" "v \<le> hi"
    using Cons.prems[of w v] a by simp_all
  have "\<And>w v. (w, v) \<in> set wvs \<Longrightarrow> 0 < w \<and> lo \<le> v \<and> v \<le> hi"
    using Cons.prems by (meson list.set_intros(2))
  from Cons.IH[OF this]
  have ih: "lo * sum_list (map fst wvs) \<le> sum_list (map (\<lambda>(w, v). w * v) wvs)"
    "sum_list (map (\<lambda>(w, v). w * v) wvs) \<le> hi * sum_list (map fst wvs)"
    "0 \<le> sum_list (map fst wvs)"
    by simp_all
  have m: "lo * w \<le> w * v" "w * v \<le> hi * w"
    using wv by (simp_all add: mult.commute)
  let ?S = "sum_list (map fst wvs)" and ?T = "sum_list (map (\<lambda>(w, v). w * v) wvs)"
  have 1: "lo * (w + ?S) \<le> w * v + ?T"
    unfolding distrib_left by (rule add_mono[OF m(1) ih(1)])
  have 2: "w * v + ?T \<le> hi * (w + ?S)"
    unfolding distrib_left by (rule add_mono[OF m(2) ih(2)])
  have 3: "0 < w + ?S"
    using wv(1) ih(3) by simp
  show ?case
    using 1 2 3 by (simp add: a)
qed

lemma weighted_mean_bounds:
  assumes "wvs \<noteq> []" "\<And>w v. (w, v) \<in> set wvs \<Longrightarrow> 0 < w \<and> lo \<le> v \<and> v \<le> hi"
  shows "lo \<le> weighted_mean wvs \<and> weighted_mean wvs \<le> hi"
proof -
  from weighted_sum_bounds[of wvs lo hi] assms
  have b: "lo * sum_list (map fst wvs) \<le> sum_list (map (\<lambda>(w, v). w * v) wvs)"
    "sum_list (map (\<lambda>(w, v). w * v) wvs) \<le> hi * sum_list (map fst wvs)"
    "0 < sum_list (map fst wvs)"
    by blast+
  show ?thesis
    using b by (simp add: weighted_mean_def pos_le_divide_eq pos_divide_le_eq)
qed


lemma contributions_unknown:
  "(\<forall>c\<in>set (contributions invert m). c = None) \<longleftrightarrow>
   sleep m = None \<and> mood m = None \<and> energy m = None \<and>
   stress m = None \<and> soreness m = None \<and> fatigue m = None"
  by (auto simp: contributions_def)

lemma contributions_in_scale:
  assumes "in_scale lo hi m" "\<forall>x. lo \<le> x \<and> x \<le> hi \<longrightarrow> lo \<le> invert x \<and> invert x \<le> hi"
    and "Some v \<in> set (contributions invert m)"
  shows "lo \<le> v \<and> v \<le> hi"
proof -
  have k: "lo \<le> x \<and> x \<le> hi"
    if "Some x \<in> set [sleep m, mood m, energy m, stress m, soreness m, fatigue m]" for x
    using assms(1) that unfolding in_scale_def list_all_iff known_mem[symmetric] by blast
  have "Some v \<in> {sleep m, mood m, energy m} \<or>
        (\<exists>x. Some x \<in> {stress m, soreness m, fatigue m} \<and> v = invert x)"
    using assms(3) unfolding contributions_def
    by (cases "stress m"; cases "soreness m"; cases "fatigue m"; auto)
  then show ?thesis
  proof
    assume "Some v \<in> {sleep m, mood m, energy m}"
    then show ?thesis using k[of v] by auto
  next
    assume "\<exists>x. Some x \<in> {stress m, soreness m, fatigue m} \<and> v = invert x"
    then obtain x where x: "Some x \<in> {stress m, soreness m, fatigue m}" "v = invert x"
      by blast
    then have "lo \<le> x \<and> x \<le> hi" using k[of x] by auto
    then show ?thesis using assms(2) x(2) by blast
  qed
qed

text \<open>
  Claim C6, on the readiness modelled from the specification. With one positive weight
  per metric, known metric values on the scale from \<open>lo\<close> to \<open>hi\<close> and an inversion that
  stays on that scale: readiness is unknown exactly when all six metrics are unknown;
  when it is known it lies between \<open>lo\<close> and \<open>hi\<close>; and it is computed from the known
  metrics alone, so a row whose only known metric is sleep has that value as its
  readiness (not a sixth of it).
\<close>

theorem readiness_unknown_iff_and_bounded:
  assumes "length ws = 6" "list_all (\<lambda>w. 0 < w) ws" "in_scale lo hi m"
    and "\<forall>x. lo \<le> x \<and> x \<le> hi \<longrightarrow> lo \<le> invert x \<and> invert x \<le> hi"
  shows "(readiness ws invert m = None \<longleftrightarrow>
            sleep m = None \<and> mood m = None \<and> energy m = None \<and>
            stress m = None \<and> soreness m = None \<and> fatigue m = None) \<and>
         (\<forall>r. readiness ws invert m = Some r \<longrightarrow> lo \<le> r \<and> r \<le> hi) \<and>
         (\<forall>v. readiness ws invert
                \<lparr>sleep = Some v, mood = None, energy = None,
                 stress = None, soreness = None, fatigue = None\<rparr> = Some v)"
proof -
  let ?wvs = "known (map2 (\<lambda>w c. map_option (Pair w) c) ws (contributions invert m))"
  have len: "length ws = length (contributions invert m)"
    using assms(1) by (simp add: contributions_def)
  have none: "readiness ws invert m = None \<longleftrightarrow> ?wvs = []"
    by (simp add: readiness_def Let_def)
  have 1: "readiness ws invert m = None \<longleftrightarrow>
            sleep m = None \<and> mood m = None \<and> energy m = None \<and>
            stress m = None \<and> soreness m = None \<and> fatigue m = None"
    unfolding none known_weighted_empty[OF len] contributions_unknown ..
  have 2: "lo \<le> r \<and> r \<le> hi" if "readiness ws invert m = Some r" for r
  proof -
    have ne: "?wvs \<noteq> []" and r: "r = weighted_mean ?wvs"
      using that by (auto simp: readiness_def Let_def split: if_splits)
    have "0 < w \<and> lo \<le> v \<and> v \<le> hi" if "(w, v) \<in> set ?wvs" for w v
    proof -
      have "w \<in> set ws" "Some v \<in> set (contributions invert m)"
        using known_weighted_mem[OF that] by simp_all
      then show ?thesis
        using assms(2) contributions_in_scale[OF assms(3,4)] by (simp add: list_all_iff)
    qed
    then show ?thesis
      unfolding r using ne by (intro weighted_mean_bounds) blast+
  qed
  obtain w1 w2 w3 w4 w5 w6 where ws: "ws = [w1, w2, w3, w4, w5, w6]"
    using assms(1) by (auto simp: length_Suc_conv eval_nat_numeral)
  have "0 < w1"
    using assms(2) ws by simp
  then have 3: "readiness ws invert
                \<lparr>sleep = Some v, mood = None, energy = None,
                 stress = None, soreness = None, fatigue = None\<rparr> = Some v" for v
    by (simp add: readiness_def contributions_def ws weighted_mean_def)
  show ?thesis
    using 1 2 3 by blast
qed

lemma sample_metrics_row_in_scale: "in_scale 1 10 sample_metrics_row"
  by (simp add: in_scale_def sample_metrics_row_def)

lemma invert_1_10_on_scale: "\<forall>x. 1 \<le> x \<and> x \<le> 10 \<longrightarrow> 1 \<le> invert_1_10 x \<and> invert_1_10 x \<le> 10"
  by (simp add: invert_1_10_def)

theorem readiness_unknown_iff_and_bounded_witness:
  "length equal_weights = 6 \<and> list_all (\<lambda>w. 0 < w) equal_weights \<and>
   in_scale 1 10 sample_metrics_row \<and>
   invert_1_10 1 = 10 \<and> invert_1_10 10 = 1 \<and>
   readiness equal_weights invert_1_10 sample_metrics_row = Some (22 / 3) \<and>
   (1::real) \<le> 22 / 3 \<and> (22::real) / 3 \<le> 10"
proof -
  have w: "length equal_weights = 6" "list_all (\<lambda>w. 0 < w) equal_weights"
    by (simp_all add: equal_weights_def)
  have r: "readiness equal_weights invert_1_10 sample_metrics_row = Some (22 / 3)"
    by (simp add: readiness_def contributions_def equal_weights_def invert_1_10_def
        sample_metrics_row_def weighted_mean_def)
  from readiness_unknown_iff_and_bounded[OF w sample_metrics_row_in_scale invert_1_10_on_scale]
  have "(1::real) \<le> 22 / 3 \<and> (22::real) / 3 \<le> 10"
    using r by blast
  moreover have "invert_1_10 1 = 10" "invert_1_10 10 = 1"
    by (simp_all add: invert_1_10_def)
  ultimately show ?thesis
    using w r sample_metrics_row_in_scale by blast
qed

lemma known_constant_sum:
  "\<forall>x\<in>set xs. x = c \<Longrightarrow> sum_list xs = real (length xs) * c"
  by (induction xs) (auto simp: algebra_simps)

lemma mean_constant:
  assumes "\<forall>x\<in>set xs. x = c" "xs \<noteq> []"
  shows "mean xs = c"
  using assms known_constant_sum[OF assms(1)] by (simp add: mean_def)

lemma sum_list_zero: "\<forall>x\<in>set xs. f x = (0::real) \<Longrightarrow> sum_list (map f xs) = 0"
  by (induction xs) auto

lemma variance_constant:
  assumes "\<forall>x\<in>set xs. x = c" "xs \<noteq> []"
  shows "variance ddof xs = 0"
proof -
  have "\<forall>x\<in>set xs. (x - mean xs)\<^sup>2 = 0"
    using assms(1) mean_constant[OF assms] by simp
  then have "sum_list (map (\<lambda>x. (x - mean xs)\<^sup>2) xs) = 0"
    by (rule sum_list_zero)
  then show ?thesis
    by (simp add: variance_def)
qed

text \<open>
  Claim C7, on the z-score modelled from the specification. Whatever the series and the
  value, the computation never carries out a division by zero (it never yields
  \<open>NonFinite\<close>); a series with fewer than two known points gives unknown; a series whose
  known points are all equal, so that the standard deviation is zero, gives unknown.
\<close>

theorem zscore_never_divides_by_zero:
  "zscore ddof series v \<noteq> NonFinite \<and>
   (length (known series) < 2 \<longrightarrow> zscore ddof series v = Unknown) \<and>
   ((\<forall>x\<in>set (known series). x = c) \<longrightarrow> zscore ddof series v = Unknown)"
proof -
  have 1: "zscore ddof series v \<noteq> NonFinite"
    by (simp add: zscore_def Let_def float_div_def)
  have 2: "zscore ddof series v = Unknown" if "length (known series) < 2"
    using that by (simp add: zscore_def Let_def)
  have 3: "zscore ddof series v = Unknown" if c: "\<forall>x\<in>set (known series). x = c"
  proof (cases "length (known series) < 2")
    case True
    then show ?thesis by (rule 2)
  next
    case False
    then have "known series \<noteq> []" by auto
    then have "variance ddof (known series) = 0"
      using c by (intro variance_constant)
    then show ?thesis
      by (simp add: zscore_def Let_def)
  qed
  show ?thesis
    using 1 2 3 by blast
qed

theorem zscore_never_divides_by_zero_witness:
  "set (known [Some 5, None, Some 5, Some 5]) = {5::real} \<and>
   zscore 1 [Some 5, None, Some 5, Some 5] 5 = Unknown \<and>
   length (known [Some (4::real)]) < 2 \<and>
   zscore 1 [Some 4] 4 = Unknown \<and>
   zscore 1 [Some 4, Some 6, Some 8] 8 = Score 1"
proof -
  have a: "\<forall>x\<in>set (known [Some 5, None, Some 5, Some 5]). x = (5::real)"
    by simp
  have b: "length (known [Some (4::real)]) < 2"
    by simp
  have "zscore 1 [Some 5, None, Some 5, Some 5] 5 = Unknown"
    using zscore_never_divides_by_zero[of 1 "[Some 5, None, Some 5, Some 5]" 5 5] a by blast
  moreover have "zscore 1 [Some 4] 4 = Unknown"
    using zscore_never_divides_by_zero[of 1 "[Some 4]" 4 4] b by blast
  moreover have "zscore 1 [Some 4, Some 6, Some 8] 8 = Score 1"
    by (simp add: zscore_def variance_def mean_def float_div_def power2_eq_square)
  moreover have "set (known [Some 5, None, Some 5, Some 5]) = {5::real}"
    by simp
  ultimately show ?thesis
    using b by blast
qed

end
